theory Spec2Isabelle
  imports Main
begin

section \<open>Python values, messages and exceptions\<close>

text \<open>
  The tools of the plugin receive \<^verbatim>\<open>tool_parameters: dict[str, Any]\<close> and yield
  \<^verbatim>\<open>ToolInvokeMessage\<close>s. The values that flow through them are JSON-like Python values.
  \<open>PObj s\<close> stands for an object of any other class whose \<^verbatim>\<open>str()\<close> is \<open>s\<close> (a Decimal, a
  date); floats are not modelled. A Python \<^verbatim>\<open>dict\<close> is an association list in insertion
  order, with string keys.
\<close>

datatype pyval =
    PNone
  | PBool bool
  | PInt int
  | PStr string
  | PList "pyval list"
  | PTuple "pyval list"
  | PDict "(string \<times> pyval) list"
  | PObj string

text \<open>Python truthiness, as tested by \<^verbatim>\<open>if not sql\<close> and \<^verbatim>\<open>dialect if dialect else None\<close>.\<close>

fun truthy :: "pyval \<Rightarrow> bool" where
  "truthy PNone = False"
| "truthy (PBool b) = b"
| "truthy (PInt i) = (i \<noteq> 0)"
| "truthy (PStr s) = (s \<noteq> [])"
| "truthy (PList vs) = (vs \<noteq> [])"
| "truthy (PTuple vs) = (vs \<noteq> [])"
| "truthy (PDict kvs) = (kvs \<noteq> [])"
| "truthy (PObj s) = True"

type_synonym params = "string \<rightharpoonup> pyval"

text \<open>\<^verbatim>\<open>tool_parameters.get(key, default)\<close>\<close>

definition get_param :: "params \<Rightarrow> string \<Rightarrow> pyval \<Rightarrow> pyval" where
  "get_param tool_parameters key dflt =
     (case tool_parameters key of None \<Rightarrow> dflt | Some v \<Rightarrow> v)"

text \<open>\<^verbatim>\<open>d.get(key)\<close> and \<^verbatim>\<open>d.get(key, default)\<close> on a dict held as an association list.\<close>

definition dict_get :: "(string \<times> pyval) list \<Rightarrow> string \<Rightarrow> pyval \<Rightarrow> pyval" where
  "dict_get d key dflt = (case map_of d key of None \<Rightarrow> dflt | Some v \<Rightarrow> v)"

text \<open>\<^verbatim>\<open>d[key] = v\<close>: an existing key keeps its position, a new key goes last.\<close>

fun dict_set :: "(string \<times> pyval) list \<Rightarrow> string \<Rightarrow> pyval \<Rightarrow> (string \<times> pyval) list" where
  "dict_set [] key v = [(key, v)]"
| "dict_set ((k, w) # d) key v = (if k = key then (k, v) # d else (k, w) # dict_set d key v)"

datatype message = TextMessage string | JsonMessage pyval

text \<open>
  The exceptions the tools distinguish: sqlglot's \<^verbatim>\<open>ParseError\<close> (its message and its
  \<^verbatim>\<open>errors\<close> list), \<^verbatim>\<open>json.JSONDecodeError\<close>, and any other subclass of \<^verbatim>\<open>Exception\<close>,
  with its class name and its \<^verbatim>\<open>str()\<close>. Exceptions outside \<^verbatim>\<open>Exception\<close>
  (\<^verbatim>\<open>KeyboardInterrupt\<close>, \<^verbatim>\<open>GeneratorExit\<close>) are not modelled.
\<close>

datatype exn =
    ParseError string "pyval list"
  | JSONDecodeError string
  | OtherError string string

fun exn_str :: "exn \<Rightarrow> string" where
  "exn_str (ParseError msg errors) = msg"
| "exn_str (JSONDecodeError msg) = msg"
| "exn_str (OtherError cls msg) = msg"

fun exn_type_name :: "exn \<Rightarrow> string" where
  "exn_type_name (ParseError msg errors) = ''ParseError''"
| "exn_type_name (JSONDecodeError msg) = ''JSONDecodeError''"
| "exn_type_name (OtherError cls msg) = cls"

text \<open>
  What a generator body did: the messages it yielded, and the exception that left it
  (\<open>None\<close> when it returned).
\<close>

type_synonym outcome = "message list \<times> exn option"

text \<open>
  \<^verbatim>\<open>try: body except ...: handler\<close>. The messages yielded before the exception stay
  yielded; the handler runs on the exception and may itself raise.
\<close>

definition try_except :: "outcome \<Rightarrow> (exn \<Rightarrow> outcome) \<Rightarrow> outcome" where
  "try_except body handler =
     (case body of
        (ms, None) \<Rightarrow> (ms, None)
      | (ms, Some e) \<Rightarrow> (case handler e of (ms', r) \<Rightarrow> (ms @ ms', r)))"

text \<open>Sequencing of fallible steps: the first exception ends the computation.\<close>

definition bind_exn :: "exn + 'a \<Rightarrow> ('a \<Rightarrow> exn + 'b) \<Rightarrow> exn + 'b" where
  "bind_exn m f = (case m of Inl e \<Rightarrow> Inl e | Inr x \<Rightarrow> f x)"

subsection \<open>Strings\<close>

text \<open>\<^verbatim>\<open>sep.join(parts)\<close>\<close>

fun str_join :: "string \<Rightarrow> string list \<Rightarrow> string" where
  "str_join sep [] = []"
| "str_join sep [x] = x"
| "str_join sep (x # y # ys) = x @ sep @ str_join sep (y # ys)"

definition digit_char :: "nat \<Rightarrow> char" where
  "digit_char d = char_of (48 + d)"

text \<open>\<^verbatim>\<open>str(n)\<close> of a length or a count.\<close>

function str_nat :: "nat \<Rightarrow> string" where
  "str_nat n = (if n < 10 then [digit_char n] else str_nat (n div 10) @ [digit_char (n mod 10)])"
  by pat_completeness auto
termination
  by (relation "measure (\<lambda>n. n)") auto

declare str_nat.simps [simp del]

definition str_int :: "int \<Rightarrow> string" where
  "str_int i = (if i < 0 then CHR ''-'' # str_nat (nat (- i)) else str_nat (nat i))"

text \<open>
  \<^verbatim>\<open>str(v)\<close>. Containers print through \<^verbatim>\<open>repr\<close>, whose quoting and escaping rules are
  Python's own; it is a parameter.
\<close>

fun py_str :: "(pyval \<Rightarrow> string) \<Rightarrow> pyval \<Rightarrow> string" where
  "py_str repr PNone = ''None''"
| "py_str repr (PBool b) = (if b then ''True'' else ''False'')"
| "py_str repr (PInt i) = str_int i"
| "py_str repr (PStr s) = s"
| "py_str repr (PObj s) = s"
| "py_str repr v = repr v"

section \<open>The library as the tools see it\<close>

text \<open>
  sqlglot is a third-party library: the tools call it and read attributes of the
  expression objects it returns. Each object is modelled by what the tools read from it.
  An attribute that sqlglot defines as a property of every expression (\<^verbatim>\<open>name\<close>,
  \<^verbatim>\<open>alias\<close>, \<^verbatim>\<open>this\<close>, and \<^verbatim>\<open>db\<close>, \<^verbatim>\<open>catalog\<close>, \<^verbatim>\<open>kind\<close> on
  tables and joins) is a field, so the \<^verbatim>\<open>hasattr\<close> tests on them are true. A call of
  \<^verbatim>\<open>.sql()\<close> may raise: its field holds the exception or the text.
\<close>

record table_node =
  table_name :: string
  table_alias :: string
  table_db :: string
  table_catalog :: string

record column_node =
  column_name :: string
  column_table :: string
  column_alias_or_name :: string

text \<open>A projection of a SELECT: \<^verbatim>\<open>projection.alias\<close> and \<^verbatim>\<open>projection.this.sql()\<close>.\<close>

record projection_node =
  projection_alias :: string
  projection_this_sql :: "exn + string"

text \<open>A function call: \<^verbatim>\<open>type(func).__name__\<close> and \<^verbatim>\<open>func.sql()\<close>.\<close>

record func_node =
  func_class :: string
  func_sql :: "exn + string"

text \<open>
  \<^verbatim>\<open>join.this\<close>: \<open>Named n\<close> when it has the attribute \<^verbatim>\<open>name\<close>, with value \<open>n\<close>;
  \<open>Unnamed s\<close> otherwise, with \<open>s\<close> its \<^verbatim>\<open>str()\<close>.
\<close>

datatype this_view = Named string | Unnamed string

text \<open>
  A join: \<^verbatim>\<open>join.kind\<close>, \<^verbatim>\<open>join.this\<close> and, when \<^verbatim>\<open>join.args.get("on")\<close> is
  truthy, the outcome of its \<^verbatim>\<open>.sql()\<close>.
\<close>

record join_node =
  join_kind :: string
  join_this :: this_view
  join_on :: "(exn + string) option"

record subquery_node =
  subquery_alias :: string
  subquery_this_sql :: "exn + string"

text \<open>An ORDER BY item: \<^verbatim>\<open>expr.this.sql()\<close> and \<^verbatim>\<open>expr.args.get("desc", False)\<close>.\<close>

record ordered_node =
  ordered_this_sql :: "exn + string"
  ordered_desc :: pyval

text \<open>
  The object \<^verbatim>\<open>execute\<close> returns: its \<^verbatim>\<open>columns\<close> (names) and \<^verbatim>\<open>rows\<close>
  attributes (\<open>None\<close> when it has none) and the rows that iterating over it gives
  (\<open>None\<close> when that raises \<^verbatim>\<open>TypeError\<close>). A row is a Python value: sqlglot's
  \<^verbatim>\<open>Table\<close> holds tuples.
\<close>

record exec_result =
  result_columns :: "string list option"
  result_rows :: "pyval list option"
  result_iter :: "pyval list option"

text \<open>
  The functions of sqlglot (and \<^verbatim>\<open>json.loads\<close>, \<^verbatim>\<open>repr\<close>) over an expression type
  \<open>'a\<close>. A dialect argument is \<open>PNone\<close> or the caller's value; keyword arguments of
  \<^verbatim>\<open>.sql(...)\<close> are passed as a list. \<^verbatim>\<open>find_all\<close> gives the nodes of a class in
  traversal order; \<open>select_expressions\<close>, \<open>group_expressions\<close> and \<open>order_expressions\<close>
  are the \<^verbatim>\<open>expressions\<close> of each SELECT, GROUP BY and ORDER BY found.
\<close>

record 'a sqlglot =
  parse_one :: "pyval \<Rightarrow> pyval \<Rightarrow> exn + 'a option"
  parse :: "pyval \<Rightarrow> pyval \<Rightarrow> exn + 'a option list"
  transpile :: "pyval \<Rightarrow> pyval \<Rightarrow> pyval \<Rightarrow> pyval \<Rightarrow> exn + string list"
  optimize :: "'a \<Rightarrow> pyval option \<Rightarrow> pyval \<Rightarrow> exn + 'a"
  execute :: "pyval \<Rightarrow> pyval \<Rightarrow> pyval \<Rightarrow> exn + exec_result option"
  expr_sql :: "'a \<Rightarrow> (string \<times> pyval) list \<Rightarrow> exn + string"
  type_name :: "'a \<Rightarrow> string"
  find_all_Table :: "'a \<Rightarrow> table_node list"
  find_all_Column :: "'a \<Rightarrow> column_node list"
  select_expressions :: "'a \<Rightarrow> projection_node list list"
  find_all_Func :: "'a \<Rightarrow> func_node list"
  find_all_Join :: "'a \<Rightarrow> join_node list"
  find_all_Subquery :: "'a \<Rightarrow> subquery_node list"
  find_all_Where :: "'a \<Rightarrow> (exn + string) list"
  group_expressions :: "'a \<Rightarrow> (exn + string) list list"
  order_expressions :: "'a \<Rightarrow> ordered_node list list"
  json_loads :: "pyval \<Rightarrow> exn + pyval"
  py_repr :: "pyval \<Rightarrow> string"

section \<open>The handlers shared by the tools\<close>

text \<open>
  \<^verbatim>\<open>dialect if dialect else "auto-detected"\<close>
\<close>

definition dialect_label :: "pyval \<Rightarrow> pyval" where
  "dialect_label dialect = (if truthy dialect then dialect else PStr ''auto-detected'')"

text \<open>\<^verbatim>\<open>dialect if dialect else None\<close>\<close>

definition parse_dialect_of :: "pyval \<Rightarrow> pyval" where
  "parse_dialect_of dialect = (if truthy dialect then dialect else PNone)"

definition error_response :: "string \<Rightarrow> string \<Rightarrow> pyval \<Rightarrow> pyval" where
  "error_response error_type error_message sql =
     PDict [(''success'', PBool False),
            (''error_type'', PStr error_type),
            (''error_message'', PStr error_message),
            (''original_sql'', sql)]"

text \<open>
  The two handlers that close the \<^verbatim>\<open>try\<close> of the analyze, format, transpile, optimize
  and execute tools: \<^verbatim>\<open>except ParseError\<close>, then \<^verbatim>\<open>except Exception\<close>, whose text
  message begins with \<open>prefix\<close> (\<^verbatim>\<open>"Error analyzing SQL: "\<close> and so on).
\<close>

fun handle_errors :: "string \<Rightarrow> pyval \<Rightarrow> exn \<Rightarrow> outcome" where
  "handle_errors prefix sql (ParseError msg errors) =
     ([TextMessage (''SQL Parse Error: '' @ msg),
       JsonMessage (error_response ''ParseError'' msg sql)], None)"
| "handle_errors prefix sql e =
     ([TextMessage (prefix @ exn_str e),
       JsonMessage (error_response (exn_type_name e) (exn_str e) sql)], None)"

section \<open>AnalyzeSqlTool\<close>

definition table_info :: "table_node \<Rightarrow> pyval" where
  "table_info table =
     PDict [(''name'', PStr (table_name table)),
            (''alias'', if table_alias table \<noteq> [] then PStr (table_alias table) else PNone),
            (''db'', if table_db table \<noteq> [] then PStr (table_db table) else PNone),
            (''catalog'', if table_catalog table \<noteq> [] then PStr (table_catalog table) else PNone)]"

fun collect_tables :: "pyval list \<Rightarrow> table_node list \<Rightarrow> pyval list" where
  "collect_tables tables [] = tables"
| "collect_tables tables (table # rest) =
     collect_tables
       (if table_info table \<in> set tables then tables else tables @ [table_info table]) rest"

definition column_info :: "column_node \<Rightarrow> pyval" where
  "column_info column =
     PDict [(''name'', PStr (column_name column)),
            (''table'', if column_table column \<noteq> [] then PStr (column_table column) else PNone),
            (''alias_or_name'', PStr (column_alias_or_name column))]"

text \<open>
  The loop over \<^verbatim>\<open>parsed.find_all(exp.Column)\<close>. Every \<open>column_info\<close> has the same
  keys in the same order and strings or \<^verbatim>\<open>None\<close> as values, so Python's \<^verbatim>\<open>not in\<close>
  (equality of dicts) is equality of the values here.
\<close>

fun collect_columns :: "pyval list \<Rightarrow> column_node list \<Rightarrow> pyval list" where
  "collect_columns columns [] = columns"
| "collect_columns columns (column # rest) =
     collect_columns
       (if column_info column \<in> set columns then columns else columns @ [column_info column]) rest"

text \<open>The projections of one SELECT that have an alias.\<close>

fun collect_projections :: "pyval list \<Rightarrow> projection_node list \<Rightarrow> exn + pyval list" where
  "collect_projections aliases [] = Inr aliases"
| "collect_projections aliases (projection # rest) =
     (if projection_alias projection \<noteq> [] then
        bind_exn (projection_this_sql projection) (\<lambda>expression.
          collect_projections
            (aliases @ [PDict [(''alias'', PStr (projection_alias projection)),
                               (''expression'', PStr expression)]]) rest)
      else collect_projections aliases rest)"

fun collect_aliases :: "pyval list \<Rightarrow> projection_node list list \<Rightarrow> exn + pyval list" where
  "collect_aliases aliases [] = Inr aliases"
| "collect_aliases aliases (select # rest) =
     bind_exn (collect_projections aliases select) (\<lambda>aliases'. collect_aliases aliases' rest)"

text \<open>
  The functions found so far are kept as (name, sql) pairs; \<open>function_info\<close> makes the
  dict of each.
\<close>

fun collect_functions ::
  "(string \<times> string) list \<Rightarrow> func_node list \<Rightarrow> exn + (string \<times> string) list" where
  "collect_functions functions [] = Inr functions"
| "collect_functions functions (func # rest) =
     (if func_class func \<notin> set (map fst functions) then
        bind_exn (func_sql func) (\<lambda>s. collect_functions (functions @ [(func_class func, s)]) rest)
      else collect_functions functions rest)"

definition function_info :: "string \<times> string \<Rightarrow> pyval" where
  "function_info f = PDict [(''name'', PStr (fst f)), (''sql'', PStr (snd f))]"

definition join_type :: "join_node \<Rightarrow> string" where
  "join_type join = (if join_kind join \<noteq> [] then join_kind join else ''INNER'')"

definition join_table :: "join_node \<Rightarrow> string" where
  "join_table join = (case join_this join of Named n \<Rightarrow> n | Unnamed s \<Rightarrow> s)"

definition join_info :: "join_node \<Rightarrow> exn + pyval" where
  "join_info join =
     bind_exn (case join_on join of None \<Rightarrow> Inr PNone
               | Some r \<Rightarrow> bind_exn r (\<lambda>s. Inr (PStr s)))
       (\<lambda>on_condition.
          Inr (PDict [(''type'', PStr (join_type join)),
                      (''table'', PStr (join_table join)),
                      (''on_condition'', on_condition)]))"

fun collect_joins :: "pyval list \<Rightarrow> join_node list \<Rightarrow> exn + pyval list" where
  "collect_joins joins [] = Inr joins"
| "collect_joins joins (join # rest) =
     bind_exn (join_info join) (\<lambda>info. collect_joins (joins @ [info]) rest)"

fun collect_subqueries :: "pyval list \<Rightarrow> subquery_node list \<Rightarrow> exn + pyval list" where
  "collect_subqueries subqueries [] = Inr subqueries"
| "collect_subqueries subqueries (subquery # rest) =
     bind_exn (subquery_this_sql subquery) (\<lambda>s.
       collect_subqueries
         (subqueries @ [PDict [(''alias'', if subquery_alias subquery \<noteq> []
                                           then PStr (subquery_alias subquery) else PNone),
                               (''sql'', PStr s)]]) rest)"

text \<open>The loops that append the text of each expression they meet.\<close>

fun collect_sql :: "pyval list \<Rightarrow> (exn + string) list \<Rightarrow> exn + pyval list" where
  "collect_sql acc [] = Inr acc"
| "collect_sql acc (r # rest) = bind_exn r (\<lambda>s. collect_sql (acc @ [PStr s]) rest)"

fun collect_group_by :: "pyval list \<Rightarrow> (exn + string) list list \<Rightarrow> exn + pyval list" where
  "collect_group_by group_by [] = Inr group_by"
| "collect_group_by group_by (grp # rest) =
     bind_exn (collect_sql group_by grp) (\<lambda>group_by'. collect_group_by group_by' rest)"

fun collect_ordered :: "pyval list \<Rightarrow> ordered_node list \<Rightarrow> exn + pyval list" where
  "collect_ordered order_by [] = Inr order_by"
| "collect_ordered order_by (expr # rest) =
     bind_exn (ordered_this_sql expr) (\<lambda>s.
       collect_ordered
         (order_by @ [PDict [(''expression'', PStr s), (''desc'', ordered_desc expr)]]) rest)"

fun collect_order_by :: "pyval list \<Rightarrow> ordered_node list list \<Rightarrow> exn + pyval list" where
  "collect_order_by order_by [] = Inr order_by"
| "collect_order_by order_by (ordr # rest) =
     bind_exn (collect_ordered order_by ordr) (\<lambda>order_by'. collect_order_by order_by' rest)"

text \<open>
  The body of the \<^verbatim>\<open>try\<close> after a successful parse: the extraction, in the order of
  the source, then the summary and the response.
\<close>

definition analyze_parsed :: "'a sqlglot \<Rightarrow> 'a \<Rightarrow> pyval \<Rightarrow> pyval \<Rightarrow> exn + string \<times> pyval" where
  "analyze_parsed lib parsed sql dialect =
     (let tables = collect_tables [] (find_all_Table lib parsed);
          columns = collect_columns [] (find_all_Column lib parsed)
      in
      bind_exn (collect_aliases [] (select_expressions lib parsed)) (\<lambda>aliases.
      bind_exn (collect_functions [] (find_all_Func lib parsed)) (\<lambda>functions.
      bind_exn (collect_joins [] (find_all_Join lib parsed)) (\<lambda>joins.
      bind_exn (collect_subqueries [] (find_all_Subquery lib parsed)) (\<lambda>subqueries.
      let query_type = type_name lib parsed in
      bind_exn (collect_sql [] (find_all_Where lib parsed)) (\<lambda>where_conditions.
      bind_exn (collect_group_by [] (group_expressions lib parsed)) (\<lambda>group_by.
      bind_exn (collect_order_by [] (order_expressions lib parsed)) (\<lambda>order_by.
      let response =
            PDict [(''query_type'', PStr query_type),
                   (''tables'', PList tables),
                   (''columns'', PList columns),
                   (''aliases'', PList aliases),
                   (''functions'', PList (map function_info functions)),
                   (''joins'', PList joins),
                   (''subqueries'', PList subqueries),
                   (''where_conditions'', PList where_conditions),
                   (''group_by'', PList group_by),
                   (''order_by'', PList order_by),
                   (''dialect'', dialect_label dialect),
                   (''original_sql'', sql)];
          summary_parts =
            [''Query Type: '' @ query_type,
             ''Tables: '' @ str_nat (length tables),
             ''Columns: '' @ str_nat (length columns),
             ''Joins: '' @ str_nat (length joins),
             ''Functions: '' @ str_nat (length functions)];
          summary = ''SQL Analysis:\<newline>- '' @ str_join ''\<newline>- '' summary_parts
      in Inr (summary, response)))))))))"

definition analyze_try :: "'a sqlglot \<Rightarrow> pyval \<Rightarrow> pyval \<Rightarrow> outcome" where
  "analyze_try lib sql dialect =
     (case parse_one lib sql (parse_dialect_of dialect) of
        Inl e \<Rightarrow> ([], Some e)
      | Inr None \<Rightarrow> ([TextMessage ''Failed to parse SQL query.''], None)
      | Inr (Some parsed) \<Rightarrow>
          (case analyze_parsed lib parsed sql dialect of
             Inl e \<Rightarrow> ([], Some e)
           | Inr (summary, response) \<Rightarrow>
               ([TextMessage summary, JsonMessage response], None)))"

definition AnalyzeSqlTool_invoke :: "'a sqlglot \<Rightarrow> params \<Rightarrow> outcome" where
  "AnalyzeSqlTool_invoke lib tool_parameters =
     (let sql = get_param tool_parameters ''sql'' (PStr '''');
          dialect = get_param tool_parameters ''dialect'' (PStr '''')
      in if \<not> truthy sql then ([TextMessage ''SQL query is required.''], None)
         else try_except (analyze_try lib sql dialect)
                (handle_errors ''Error analyzing SQL: '' sql))"

section \<open>FormatSqlTool\<close>

text \<open>
  The loop over the parsed statements: each statement that is not \<^verbatim>\<open>None\<close> is
  rendered with \<^verbatim>\<open>pretty=True\<close> and the caller's options.
\<close>

fun format_statements ::
  "'a sqlglot \<Rightarrow> pyval \<Rightarrow> pyval \<Rightarrow> pyval \<Rightarrow> string list \<Rightarrow> 'a option list
     \<Rightarrow> exn + string list" where
  "format_statements lib parse_dialect identify normalise formatted_statements [] =
     Inr formatted_statements"
| "format_statements lib parse_dialect identify normalise formatted_statements (None # rest) =
     format_statements lib parse_dialect identify normalise formatted_statements rest"
| "format_statements lib parse_dialect identify normalise formatted_statements
       (Some statement # rest) =
     bind_exn (expr_sql lib statement
                 [(''dialect'', parse_dialect), (''pretty'', PBool True),
                  (''identify'', identify), (''normalize'', normalise)])
       (\<lambda>formatted_sql.
          format_statements lib parse_dialect identify normalise
            (formatted_statements @ [formatted_sql]) rest)"

definition sql_block :: "string \<Rightarrow> string \<Rightarrow> string" where
  "sql_block title body =
     ''\<newline>**'' @ title @ '':**\<newline>```sql\<newline>'' @ body @ ''\<newline>```''"

definition format_try :: "'a sqlglot \<Rightarrow> pyval \<Rightarrow> pyval \<Rightarrow> pyval \<Rightarrow> pyval \<Rightarrow> outcome" where
  "format_try lib sql dialect identify normalise =
     (let parse_dialect = parse_dialect_of dialect in
      case parse lib sql parse_dialect of
        Inl e \<Rightarrow> ([], Some e)
      | Inr parsed \<Rightarrow>
          if parsed = [] then ([TextMessage ''Failed to parse SQL query.''], None)
          else
            (case format_statements lib parse_dialect identify normalise [] parsed of
               Inl e \<Rightarrow> ([], Some e)
             | Inr formatted_statements \<Rightarrow>
                 if formatted_statements = []
                 then ([TextMessage ''No valid SQL statements found.''], None)
                 else
                   (let result_sql = str_join '';\<newline>\<newline>'' formatted_statements;
                        response =
                          PDict [(''original_sql'', sql),
                                 (''formatted_sql'', PStr result_sql),
                                 (''dialect'', dialect_label dialect),
                                 (''options'', PDict [(''identify'', identify),
                                                      (''normalize'', normalise)]),
                                 (''statement_count'',
                                    PInt (int (length formatted_statements)))];
                        summary = ''Successfully formatted ''
                                  @ str_nat (length formatted_statements)
                                  @ '' SQL statement(s)''
                    in ([TextMessage summary,
                         TextMessage (sql_block ''Formatted SQL'' result_sql),
                         JsonMessage response], None))))"

definition FormatSqlTool_invoke :: "'a sqlglot \<Rightarrow> params \<Rightarrow> outcome" where
  "FormatSqlTool_invoke lib tool_parameters =
     (let sql = get_param tool_parameters ''sql'' (PStr '''');
          dialect = get_param tool_parameters ''dialect'' (PStr '''');
          identify = get_param tool_parameters ''identify'' (PBool False);
          normalise = get_param tool_parameters ''normalize'' (PBool False)
      in if \<not> truthy sql then ([TextMessage ''SQL query is required.''], None)
         else try_except (format_try lib sql dialect identify normalise)
                (handle_errors ''Error formatting SQL: '' sql))"

section \<open>TranspileSqlTool\<close>

definition transpile_try :: "'a sqlglot \<Rightarrow> pyval \<Rightarrow> pyval \<Rightarrow> pyval \<Rightarrow> pyval \<Rightarrow> outcome" where
  "transpile_try lib sql source_dialect target_dialect pretty =
     (let read_dialect = parse_dialect_of source_dialect in
      case transpile lib sql read_dialect target_dialect pretty of
        Inl e \<Rightarrow> ([], Some e)
      | Inr transpiled \<Rightarrow>
          (case transpiled of
             [] \<Rightarrow> ([TextMessage ''Failed to transpile SQL query.''], None)
           | first # others \<Rightarrow>
               (let result_sql = (if length transpiled > 1
                                  then str_join '';\<newline>\<newline>'' transpiled
                                  else first);
                    response =
                      PDict [(''original_sql'', sql),
                             (''transpiled_sql'', PStr result_sql),
                             (''source_dialect'', dialect_label source_dialect),
                             (''target_dialect'', target_dialect),
                             (''statement_count'', PInt (int (length transpiled)))];
                    summary = ''Successfully transpiled SQL from ''
                              @ py_str (py_repr lib) (dialect_label source_dialect)
                              @ '' to '' @ py_str (py_repr lib) target_dialect
                in ([TextMessage summary,
                     TextMessage (sql_block ''Transpiled SQL'' result_sql),
                     JsonMessage response], None))))"

definition TranspileSqlTool_invoke :: "'a sqlglot \<Rightarrow> params \<Rightarrow> outcome" where
  "TranspileSqlTool_invoke lib tool_parameters =
     (let sql = get_param tool_parameters ''sql'' (PStr '''');
          source_dialect = get_param tool_parameters ''source_dialect'' (PStr '''');
          target_dialect = get_param tool_parameters ''target_dialect'' (PStr '''');
          pretty = get_param tool_parameters ''pretty'' (PBool True)
      in if \<not> truthy sql then ([TextMessage ''SQL query is required.''], None)
         else if \<not> truthy target_dialect
         then ([TextMessage ''Target dialect is required.''], None)
         else try_except (transpile_try lib sql source_dialect target_dialect pretty)
                (handle_errors ''Error transpiling SQL: '' sql))"

section \<open>ValidateSqlTool\<close>

text \<open>\<^verbatim>\<open>[stmt for stmt in parsed if stmt is not None]\<close>\<close>

fun valid_statements_of :: "'a option list \<Rightarrow> 'a list" where
  "valid_statements_of [] = []"
| "valid_statements_of (None # rest) = valid_statements_of rest"
| "valid_statements_of (Some stmt # rest) = stmt # valid_statements_of rest"

text \<open>
  The loop over \<^verbatim>\<open>enumerate(valid_statements)\<close>; \<open>i\<close> is the index of the next
  statement. The type names are kept beside the dicts for \<^verbatim>\<open>stmt_types\<close>.
\<close>

fun statement_infos ::
  "'a sqlglot \<Rightarrow> nat \<Rightarrow> (string \<times> pyval) list \<Rightarrow> 'a list \<Rightarrow> exn + (string \<times> pyval) list" where
  "statement_infos lib i statement_info [] = Inr statement_info"
| "statement_infos lib i statement_info (stmt # rest) =
     bind_exn (expr_sql lib stmt [(''pretty'', PBool True)])
       (\<lambda>s. statement_infos lib (i + 1)
               (statement_info
                  @ [(type_name lib stmt,
                      PDict [(''index'', PInt (int i + 1)),
                             (''type'', PStr (type_name lib stmt)),
                             (''sql'', PStr s)])]) rest)"

text \<open>UTF-8 of the check mark U+2713 and of the ballot cross U+2717.\<close>

definition check_mark :: string where
  "check_mark = [CHR 0xE2, CHR 0x9C, CHR 0x93]"

definition ballot_x :: string where
  "ballot_x = [CHR 0xE2, CHR 0x9C, CHR 0x97]"

definition validate_try :: "'a sqlglot \<Rightarrow> pyval \<Rightarrow> pyval \<Rightarrow> outcome" where
  "validate_try lib sql dialect =
     (case parse lib sql (parse_dialect_of dialect) of
        Inl e \<Rightarrow> ([], Some e)
      | Inr parsed \<Rightarrow>
          (let valid_statements = valid_statements_of parsed in
           if valid_statements = [] then
             ([TextMessage ''No valid SQL statements found in the query.'',
               JsonMessage (PDict [(''valid'', PBool False),
                                   (''error'', PStr ''No valid SQL statements found''),
                                   (''original_sql'', sql)])], None)
           else
             (case statement_infos lib 0 [] valid_statements of
                Inl e \<Rightarrow> ([], Some e)
              | Inr statement_info \<Rightarrow>
                  (let response =
                         PDict [(''valid'', PBool True),
                                (''dialect'', dialect_label dialect),
                                (''statement_count'', PInt (int (length valid_statements))),
                                (''statements'', PList (map snd statement_info)),
                                (''warnings'', PList []),
                                (''original_sql'', sql)];
                       summary = check_mark @ '' SQL is valid! Found ''
                                 @ str_nat (length valid_statements) @ '' statement(s).'';
                       stmt_types = map fst statement_info
                   in ([TextMessage summary,
                        TextMessage (''Statement types: '' @ str_join '', '' stmt_types),
                        JsonMessage response], None)))))"

text \<open>One entry of \<^verbatim>\<open>error_details\<close>, for an error that is a dict.\<close>

definition error_detail :: "(string \<times> pyval) list \<Rightarrow> pyval" where
  "error_detail err =
     PDict [(''description'', dict_get err ''description'' (PStr ''Unknown error'')),
            (''line'', dict_get err ''line'' PNone),
            (''col'', dict_get err ''col'' PNone),
            (''start_context'', dict_get err ''start_context'' (PStr '''')),
            (''highlight'', dict_get err ''highlight'' (PStr '''')),
            (''end_context'', dict_get err ''end_context'' (PStr ''''))]"

text \<open>The loop over \<^verbatim>\<open>e.errors\<close>: an error that is not a dict is passed over.\<close>

fun error_details_of :: "pyval list \<Rightarrow> pyval list" where
  "error_details_of [] = []"
| "error_details_of (PDict err # rest) = error_detail err # error_details_of rest"
| "error_details_of (v # rest) = error_details_of rest"

fun validate_handler :: "pyval \<Rightarrow> pyval \<Rightarrow> exn \<Rightarrow> outcome" where
  "validate_handler sql dialect (ParseError msg errors) =
     (let error_info =
            [(''valid'', PBool False),
             (''error_type'', PStr ''ParseError''),
             (''error_message'', PStr msg),
             (''original_sql'', sql),
             (''dialect'', dialect_label dialect)];
          error_info' =
            (if errors \<noteq> []
             then dict_set error_info ''error_details'' (PList (error_details_of errors))
             else error_info)
      in ([TextMessage (ballot_x @ '' SQL Validation Failed: '' @ msg),
           JsonMessage (PDict error_info')], None))"
| "validate_handler sql dialect e =
     ([TextMessage (''Error validating SQL: '' @ exn_str e),
       JsonMessage (PDict [(''valid'', PBool False),
                           (''error_type'', PStr (exn_type_name e)),
                           (''error_message'', PStr (exn_str e)),
                           (''original_sql'', sql)])], None)"

definition ValidateSqlTool_invoke :: "'a sqlglot \<Rightarrow> params \<Rightarrow> outcome" where
  "ValidateSqlTool_invoke lib tool_parameters =
     (let sql = get_param tool_parameters ''sql'' (PStr '''');
          dialect = get_param tool_parameters ''dialect'' (PStr '''')
      in if \<not> truthy sql then ([TextMessage ''SQL query is required.''], None)
         else try_except (validate_try lib sql dialect) (validate_handler sql dialect))"

section \<open>OptimizeSqlTool\<close>

text \<open>
  \<^verbatim>\<open>schema = None; if schema_str: schema = json.loads(schema_str)\<close>. The tool handles
  \<^verbatim>\<open>JSONDecodeError\<close> itself; any other exception of \<^verbatim>\<open>json.loads\<close> goes on
  to the outer handlers.
\<close>

definition load_schema :: "'a sqlglot \<Rightarrow> pyval \<Rightarrow> exn + pyval" where
  "load_schema lib schema_str =
     (if truthy schema_str then json_loads lib schema_str else Inr PNone)"

definition optimization_note_of :: "exn \<Rightarrow> string" where
  "optimization_note_of opt_error =
     ''Note: Full optimization requires schema. Basic formatting applied. (''
     @ exn_str opt_error @ '')''"

text \<open>
  The inner \<^verbatim>\<open>try\<close>: the optimized expression and the note. When \<^verbatim>\<open>optimize\<close>
  raises, the parsed expression is kept and the note is set (it is never an empty
  string, so \<^verbatim>\<open>if optimization_note\<close> tests that it is set).
\<close>

definition optimize_or_keep :: "'a sqlglot \<Rightarrow> 'a \<Rightarrow> pyval \<Rightarrow> pyval \<Rightarrow> 'a \<times> string option" where
  "optimize_or_keep lib parsed schema parse_dialect =
     (case (if truthy schema then optimize lib parsed (Some schema) parse_dialect
            else optimize lib parsed None parse_dialect) of
        Inl opt_error \<Rightarrow> (parsed, Some (optimization_note_of opt_error))
      | Inr optimized \<Rightarrow> (optimized, None))"

definition optimize_parsed :: "'a sqlglot \<Rightarrow> 'a \<Rightarrow> pyval \<Rightarrow> pyval \<Rightarrow> pyval \<Rightarrow> outcome" where
  "optimize_parsed lib parsed sql dialect schema =
     (let parse_dialect = parse_dialect_of dialect in
      case optimize_or_keep lib parsed schema parse_dialect of
        (optimized, optimization_note) \<Rightarrow>
          (case expr_sql lib optimized [(''dialect'', parse_dialect), (''pretty'', PBool True)] of
             Inl e \<Rightarrow> ([], Some e)
           | Inr optimized_sql \<Rightarrow>
               (let response =
                      [(''original_sql'', sql),
                       (''optimized_sql'', PStr optimized_sql),
                       (''dialect'', dialect_label dialect),
                       (''schema_provided'', PBool (truthy schema)),
                       (''optimization_applied'', PBool True)];
                    response' =
                      (case optimization_note of
                         None \<Rightarrow> response
                       | Some note \<Rightarrow> dict_set response ''note'' (PStr note));
                    summary =
                      (case optimization_note of
                         None \<Rightarrow> ''Successfully optimized SQL query''
                       | Some note \<Rightarrow> ''Successfully optimized SQL query'' @ ''\<newline>'' @ note)
                in ([TextMessage summary,
                     TextMessage (sql_block ''Optimized SQL'' optimized_sql),
                     JsonMessage (PDict response')], None))))"

definition optimize_try :: "'a sqlglot \<Rightarrow> pyval \<Rightarrow> pyval \<Rightarrow> pyval \<Rightarrow> outcome" where
  "optimize_try lib sql dialect schema_str =
     (case parse_one lib sql (parse_dialect_of dialect) of
        Inl e \<Rightarrow> ([], Some e)
      | Inr None \<Rightarrow> ([TextMessage ''Failed to parse SQL query.''], None)
      | Inr (Some parsed) \<Rightarrow>
          (case load_schema lib schema_str of
             Inl (JSONDecodeError msg) \<Rightarrow> ([TextMessage (''Invalid schema JSON: '' @ msg)], None)
           | Inl e \<Rightarrow> ([], Some e)
           | Inr schema \<Rightarrow> optimize_parsed lib parsed sql dialect schema))"

definition OptimizeSqlTool_invoke :: "'a sqlglot \<Rightarrow> params \<Rightarrow> outcome" where
  "OptimizeSqlTool_invoke lib tool_parameters =
     (let sql = get_param tool_parameters ''sql'' (PStr '''');
          dialect = get_param tool_parameters ''dialect'' (PStr '''');
          schema_str = get_param tool_parameters ''schema'' (PStr '''')
      in if \<not> truthy sql then ([TextMessage ''SQL query is required.''], None)
         else try_except (optimize_try lib sql dialect schema_str)
                (handle_errors ''Error optimizing SQL: '' sql))"

section \<open>ExecuteSqlTool\<close>

text \<open>\<^verbatim>\<open>_serialize_value\<close>\<close>

fun serialize_value :: "pyval \<Rightarrow> pyval" where
  "serialize_value PNone = PNone"
| "serialize_value (PStr s) = PStr s"
| "serialize_value (PInt i) = PInt i"
| "serialize_value (PBool b) = PBool b"
| "serialize_value (PList vs) = PList (map serialize_value vs)"
| "serialize_value (PTuple vs) = PList (map serialize_value vs)"
| "serialize_value (PDict kvs) = PDict (map (\<lambda>(k, v). (k, serialize_value v)) kvs)"
| "serialize_value (PObj s) = PStr s"

text \<open>The validation of the table structure: the message of the first fault, if any.\<close>

fun check_rows :: "string \<Rightarrow> pyval list \<Rightarrow> string option" where
  "check_rows tbl_name [] = None"
| "check_rows tbl_name (PDict r # rest) = check_rows tbl_name rest"
| "check_rows tbl_name (v # rest) =
     Some (''Each row in table '' @ CHR 0x27 # tbl_name @ CHR 0x27 # '' must be an object.'')"

fun check_tables :: "(string \<times> pyval) list \<Rightarrow> string option" where
  "check_tables [] = None"
| "check_tables ((tbl_name, PList table_data) # rest) =
     (case check_rows tbl_name table_data of
        Some msg \<Rightarrow> Some msg
      | None \<Rightarrow> check_tables rest)"
| "check_tables ((tbl_name, v) # rest) =
     Some (''Table '' @ CHR 0x27 # tbl_name @ CHR 0x27 # '' must be an array of row objects.'')"

text \<open>
  \<^verbatim>\<open>for i, col in enumerate(columns): row_dict[col] = serialize(row[i] if i < len(row) else None)\<close>
\<close>

fun fill_row_dict ::
  "string list \<Rightarrow> nat \<Rightarrow> pyval list \<Rightarrow> (string \<times> pyval) list \<Rightarrow> (string \<times> pyval) list" where
  "fill_row_dict [] i row row_dict = row_dict"
| "fill_row_dict (col # columns) i row row_dict =
     fill_row_dict columns (i + 1) row
       (dict_set row_dict col (serialize_value (if i < length row then row ! i else PNone)))"

text \<open>A row of \<^verbatim>\<open>result.rows\<close>: a tuple becomes a dict by column, anything else a value.\<close>

fun rows_entry :: "string list \<Rightarrow> pyval \<Rightarrow> pyval" where
  "rows_entry columns (PTuple row) = PDict (fill_row_dict columns 0 row [])"
| "rows_entry columns row = PDict [(''value'', serialize_value row)]"

text \<open>
  A row met when iterating over the result itself. A list, a tuple and a dict have
  \<^verbatim>\<open>__iter__\<close> (\<^verbatim>\<open>list\<close> of a dict is its keys); an object of another class is taken
  not to. A tuple met when there are no columns falls to the second branch of the
  source, which builds the same dict.
\<close>

fun iter_entry :: "string list \<Rightarrow> pyval \<Rightarrow> pyval" where
  "iter_entry columns (PTuple row) =
     (if columns \<noteq> [] then PDict (fill_row_dict columns 0 row [])
      else PDict (fill_row_dict columns 0 row []))"
| "iter_entry columns (PList row) = PDict (fill_row_dict columns 0 row [])"
| "iter_entry columns (PDict kvs) = PDict (fill_row_dict columns 0 (map (\<lambda>kv. PStr (fst kv)) kvs) [])"
| "iter_entry columns row = PDict [(''value'', serialize_value row)]"

definition convert_result :: "exec_result option \<Rightarrow> string list \<times> pyval list" where
  "convert_result result =
     (case result of
        None \<Rightarrow> ([], [])
      | Some r \<Rightarrow>
          (let columns = (case result_columns r of Some cs \<Rightarrow> cs | None \<Rightarrow> []) in
           (columns,
            case result_rows r of
              Some rows \<Rightarrow> map (rows_entry columns) rows
            | None \<Rightarrow>
                (case result_iter r of
                   Some rows \<Rightarrow> map (iter_entry columns) rows
                 | None \<Rightarrow> []))))"

text \<open>\<^verbatim>\<open>row.get(col, "")\<close> on an entry of \<^verbatim>\<open>result_data\<close>.\<close>

fun row_get :: "pyval \<Rightarrow> string \<Rightarrow> pyval" where
  "row_get (PDict d) col = dict_get d col (PStr '''')"
| "row_get v col = PStr ''''"

definition table_line :: "string list \<Rightarrow> string" where
  "table_line cells = ''| '' @ str_join '' | '' cells @ '' |''"

text \<open>The markdown table of at most 50 rows.\<close>

definition results_table :: "(pyval \<Rightarrow> string) \<Rightarrow> string list \<Rightarrow> pyval list \<Rightarrow> string" where
  "results_table repr columns result_data =
     (let header = table_line columns;
          separator = table_line (map (\<lambda>c. ''---'') columns);
          rows = map (\<lambda>row. table_line (map (\<lambda>col. py_str repr (row_get row col)) columns))
                   (take 50 result_data);
          table_str = str_join ''\<newline>'' ([header, separator] @ rows)
      in if length result_data > 50
         then table_str @ ''\<newline>... and '' @ str_nat (length result_data - 50) @ '' more rows''
         else table_str)"

definition execute_checked :: "'a sqlglot \<Rightarrow> pyval \<Rightarrow> pyval \<Rightarrow> pyval \<Rightarrow> outcome" where
  "execute_checked lib sql tables dialect =
     (case execute lib sql tables (parse_dialect_of dialect) of
        Inl exec_error \<Rightarrow>
          ([TextMessage (''Query execution failed: '' @ exn_str exec_error),
            JsonMessage (PDict [(''success'', PBool False),
                                (''error'', PStr (exn_str exec_error)),
                                (''original_sql'', sql)])], None)
      | Inr result \<Rightarrow>
          (case convert_result result of
             (columns, result_data) \<Rightarrow>
               (let response =
                      PDict [(''success'', PBool True),
                             (''row_count'', PInt (int (length result_data))),
                             (''columns'', PList (map PStr columns)),
                             (''data'', PList result_data),
                             (''original_sql'', sql),
                             (''dialect'', dialect_label dialect)];
                    summary = ''Query executed successfully. Returned ''
                              @ str_nat (length result_data) @ '' row(s).''
                in ([TextMessage summary]
                    @ (if result_data \<noteq> [] \<and> columns \<noteq> []
                       then [TextMessage (''\<newline>**Results:**\<newline>''
                                          @ results_table (py_repr lib) columns result_data)]
                       else [])
                    @ [JsonMessage response], None))))"

definition execute_try :: "'a sqlglot \<Rightarrow> pyval \<Rightarrow> pyval \<Rightarrow> pyval \<Rightarrow> outcome" where
  "execute_try lib sql tables_str dialect =
     (case json_loads lib tables_str of
        Inl (JSONDecodeError msg) \<Rightarrow> ([TextMessage (''Invalid tables JSON: '' @ msg)], None)
      | Inl e \<Rightarrow> ([], Some e)
      | Inr (PDict tables) \<Rightarrow>
          (case check_tables tables of
             Some msg \<Rightarrow> ([TextMessage msg], None)
           | None \<Rightarrow> execute_checked lib sql (PDict tables) dialect)
      | Inr v \<Rightarrow>
          ([TextMessage ''Tables must be a JSON object with table names as keys.''], None))"

definition ExecuteSqlTool_invoke :: "'a sqlglot \<Rightarrow> params \<Rightarrow> outcome" where
  "ExecuteSqlTool_invoke lib tool_parameters =
     (let sql = get_param tool_parameters ''sql'' (PStr '''');
          tables_str = get_param tool_parameters ''tables'' (PStr '''');
          dialect = get_param tool_parameters ''dialect'' (PStr '''')
      in if \<not> truthy sql then ([TextMessage ''SQL query is required.''], None)
         else if \<not> truthy tables_str then ([TextMessage ''Data tables are required.''], None)
         else try_except (execute_try lib sql tables_str dialect)
                (handle_errors ''Error executing SQL: '' sql))"

section \<open>A stand-in library with canned answers\<close>

text \<open>
  The theorems below hold for every library. To apply them at concrete inputs, this
  section gives one instance of the interface: expressions are records of what
  \<^verbatim>\<open>find_all\<close> finds in them, and the library answers for a handful of statements
  under the default dialect. The answers are written by hand after what sqlglot does on
  these statements: the class of every exception and the stage at which it is raised
  are sqlglot's, the wording of a message may differ between versions of the library.
  A call the stand-in has no answer for raises \<open>no_canned_answer\<close>, which is not an
  exception of sqlglot; no statement below rests on it.
\<close>

definition no_canned_answer :: exn where
  "no_canned_answer = OtherError ''LookupError'' ''no canned answer''"

record expression =
  class_name :: string
  pretty_sql :: string
  tables_found :: "table_node list"
  columns_found :: "column_node list"
  selects_found :: "projection_node list list"
  funcs_found :: "func_node list"
  joins_found :: "join_node list"
  subqueries_found :: "subquery_node list"
  wheres_found :: "(exn + string) list"
  groups_found :: "(exn + string) list list"
  orders_found :: "ordered_node list list"

definition no_this :: "exn + string" where
  "no_this = Inl (OtherError ''AttributeError'' ''no attribute sql'')"

text \<open>\<^verbatim>\<open>SELECT a.x, a.x FROM t a\<close>\<close>

definition select_dup :: expression where
  "select_dup =
     \<lparr>class_name = ''Select'',
      pretty_sql = ''SELECT\<newline>  a.x,\<newline>  a.x\<newline>FROM t AS a'',
      tables_found = [\<lparr>table_name = ''t'', table_alias = ''a'', table_db = '''',
                       table_catalog = ''''\<rparr>],
      columns_found =
        [\<lparr>column_name = ''x'', column_table = ''a'', column_alias_or_name = ''x''\<rparr>,
         \<lparr>column_name = ''x'', column_table = ''a'', column_alias_or_name = ''x''\<rparr>],
      selects_found =
        [[\<lparr>projection_alias = '''', projection_this_sql = Inr ''x''\<rparr>,
          \<lparr>projection_alias = '''', projection_this_sql = Inr ''x''\<rparr>]],
      funcs_found = [], joins_found = [], subqueries_found = [], wheres_found = [],
      groups_found = [], orders_found = []\<rparr>"

text \<open>\<^verbatim>\<open>SELECT * FROM a JOIN b ON a.id=b.id\<close>\<close>

definition select_join :: expression where
  "select_join =
     \<lparr>class_name = ''Select'',
      pretty_sql = ''SELECT\<newline>  *\<newline>FROM a\<newline>JOIN b\<newline>  ON a.id = b.id'',
      tables_found =
        [\<lparr>table_name = ''a'', table_alias = '''', table_db = '''', table_catalog = ''''\<rparr>,
         \<lparr>table_name = ''b'', table_alias = '''', table_db = '''', table_catalog = ''''\<rparr>],
      columns_found =
        [\<lparr>column_name = ''id'', column_table = ''a'', column_alias_or_name = ''id''\<rparr>,
         \<lparr>column_name = ''id'', column_table = ''b'', column_alias_or_name = ''id''\<rparr>],
      selects_found = [[\<lparr>projection_alias = '''', projection_this_sql = no_this\<rparr>]],
      funcs_found = [],
      joins_found =
        [\<lparr>join_kind = '''', join_this = Named ''b'', join_on = Some (Inr ''a.id = b.id'')\<rparr>],
      subqueries_found = [], wheres_found = [], groups_found = [], orders_found = []\<rparr>"

text \<open>\<^verbatim>\<open>SELECT 1\<close>, and what \<^verbatim>\<open>optimize\<close> makes of it.\<close>

definition select_one :: expression where
  "select_one =
     \<lparr>class_name = ''Select'',
      pretty_sql = ''SELECT\<newline>  1'',
      tables_found = [], columns_found = [],
      selects_found = [[\<lparr>projection_alias = '''', projection_this_sql = no_this\<rparr>]],
      funcs_found = [], joins_found = [], subqueries_found = [], wheres_found = [],
      groups_found = [], orders_found = []\<rparr>"

definition select_one_optimized :: expression where
  \<open>select_one_optimized =
     \<lparr>class_name = ''Select'',
      pretty_sql = ''SELECT\<newline>  1 AS "1"'',
      tables_found = [], columns_found = [],
      selects_found = [[\<lparr>projection_alias = ''1'', projection_this_sql = Inr ''1''\<rparr>]],
      funcs_found = [], joins_found = [], subqueries_found = [], wheres_found = [],
      groups_found = [], orders_found = []\<rparr>\<close>

text \<open>
  \<^verbatim>\<open>SELECT x FROM a JOIN b ON a.id = b.id\<close>: without a schema the optimizer cannot tell
  which table \<^verbatim>\<open>x\<close> belongs to.
\<close>

definition select_unresolved :: expression where
  "select_unresolved =
     \<lparr>class_name = ''Select'',
      pretty_sql = ''SELECT\<newline>  x\<newline>FROM a\<newline>JOIN b\<newline>  ON a.id = b.id'',
      tables_found =
        [\<lparr>table_name = ''a'', table_alias = '''', table_db = '''', table_catalog = ''''\<rparr>,
         \<lparr>table_name = ''b'', table_alias = '''', table_db = '''', table_catalog = ''''\<rparr>],
      columns_found =
        [\<lparr>column_name = ''x'', column_table = '''', column_alias_or_name = ''x''\<rparr>,
         \<lparr>column_name = ''id'', column_table = ''a'', column_alias_or_name = ''id''\<rparr>,
         \<lparr>column_name = ''id'', column_table = ''b'', column_alias_or_name = ''id''\<rparr>],
      selects_found = [[\<lparr>projection_alias = '''', projection_this_sql = Inr ''x''\<rparr>]],
      funcs_found = [],
      joins_found =
        [\<lparr>join_kind = '''', join_this = Named ''b'', join_on = Some (Inr ''a.id = b.id'')\<rparr>],
      subqueries_found = [], wheres_found = [], groups_found = [], orders_found = []\<rparr>"

definition canned_statements :: "(string \<times> expression) list" where
  "canned_statements =
     [(''SELECT a.x, a.x FROM t a'', select_dup),
      (''SELECT * FROM a JOIN b ON a.id=b.id'', select_join),
      (''SELECT 1'', select_one),
      (''SELECT x FROM a JOIN b ON a.id = b.id'', select_unresolved)]"

text \<open>
  \<^verbatim>\<open>SELECT 1 )\<close>: the parser is left with the token \<^verbatim>\<open>)\<close> at column 10 and raises a
  \<^verbatim>\<open>ParseError\<close> with one error, a dict. The message underlines the token with the
  escape sequences \<^verbatim>\<open>ESC[4m\<close> and \<^verbatim>\<open>ESC[0m\<close>.
\<close>

definition canned_parse_error :: exn where
  "canned_parse_error =
     ParseError (''Invalid expression / Unexpected token. Line 1, Col: 10.\<newline>  SELECT 1 ''
                 @ CHR 0x1B # ''[4m)'' @ CHR 0x1B # ''[0m'')
       [PDict [(''description'', PStr ''Invalid expression / Unexpected token''),
               (''line'', PInt 1),
               (''col'', PInt 10),
               (''start_context'', PStr ''SELECT 1 ''),
               (''highlight'', PStr '')''),
               (''end_context'', PStr ''''),
               (''into_expression'', PNone)]]"

text \<open>
  \<^verbatim>\<open>SELECT 'abc\<close>: the string is not closed, and the tokenizer raises a \<^verbatim>\<open>TokenError\<close>
  before any parsing. A \<^verbatim>\<open>TokenError\<close> is not a \<^verbatim>\<open>ParseError\<close> and has no \<^verbatim>\<open>errors\<close>.
\<close>

definition unclosed_string :: string where
  "unclosed_string = ''SELECT '' @ CHR 0x27 # ''abc''"

definition canned_token_error :: exn where
  "canned_token_error =
     OtherError ''TokenError''
       (''Error tokenizing '' @ CHR 0x27 # ''SELECT '' @ CHR 0x27 # ''ab'' @ [CHR 0x27])"

text \<open>
  \<^verbatim>\<open>;\<close> holds no statement: \<^verbatim>\<open>parse\<close> returns \<^verbatim>\<open>[None]\<close>, \<^verbatim>\<open>transpile\<close> returns \<^verbatim>\<open>[""]\<close>,
  and \<^verbatim>\<open>parse_one\<close> raises a \<^verbatim>\<open>ParseError\<close> built from a message alone, with no errors.
\<close>

definition canned_no_expression :: exn where
  "canned_no_expression =
     ParseError (''No expression was parsed from '' @ CHR 0x27 # '';'' @ [CHR 0x27]) []"

definition canned_parse_one :: "pyval \<Rightarrow> pyval \<Rightarrow> exn + expression option" where
  "canned_parse_one sql dialect =
     (case sql of
        PStr s \<Rightarrow>
          (if dialect \<noteq> PNone then Inl no_canned_answer
           else if s = ''SELECT 1 )'' then Inl canned_parse_error
           else if s = unclosed_string then Inl canned_token_error
           else if s = '';'' then Inl canned_no_expression
           else case map_of canned_statements s of
                  Some e \<Rightarrow> Inr (Some e)
                | None \<Rightarrow> Inl no_canned_answer)
      | _ \<Rightarrow> Inl no_canned_answer)"

definition canned_parse :: "pyval \<Rightarrow> pyval \<Rightarrow> exn + expression option list" where
  "canned_parse sql dialect =
     (if sql = PStr '';'' \<and> dialect = PNone then Inr [None]
      else case canned_parse_one sql dialect of
             Inl e \<Rightarrow> Inl e
           | Inr r \<Rightarrow> Inr [r])"

text \<open>
  \<^verbatim>\<open>transpile\<close> answers only for the target \<^verbatim>\<open>postgres\<close>: one string per statement,
  the empty string for no statement.
\<close>

definition canned_transpile :: "pyval \<Rightarrow> pyval \<Rightarrow> pyval \<Rightarrow> pyval \<Rightarrow> exn + string list" where
  "canned_transpile sql read write pretty =
     (if write \<noteq> PStr ''postgres'' then Inl no_canned_answer
      else case canned_parse sql read of
             Inl e \<Rightarrow> Inl e
           | Inr stmts \<Rightarrow>
               Inr (map (\<lambda>stmt. case stmt of None \<Rightarrow> '''' | Some e \<Rightarrow> pretty_sql e) stmts))"

definition canned_optimize :: "expression \<Rightarrow> pyval option \<Rightarrow> pyval \<Rightarrow> exn + expression" where
  "canned_optimize e schema dialect =
     (if pretty_sql e = pretty_sql select_one then Inr select_one_optimized
      else if pretty_sql e = pretty_sql select_unresolved
      then Inl (OtherError ''OptimizeError'' ''Column x could not be resolved'')
      else Inl no_canned_answer)"

text \<open>
  The texts the canned \<^verbatim>\<open>json.loads\<close> reads: two table objects, a text that is not JSON,
  and three JSON values that are not tables of rows.
\<close>

definition tables_json :: string where
  \<open>tables_json = ''{"t":[{"id":1,"v":10},{"id":2,"v":20}]}''\<close>

definition tables_value :: pyval where
  "tables_value =
     PDict [(''t'', PList [PDict [(''id'', PInt 1), (''v'', PInt 10)],
                           PDict [(''id'', PInt 2), (''v'', PInt 20)]])]"

definition empty_table_json :: string where
  \<open>empty_table_json = ''{"t": []}''\<close>

definition scalar_table_json :: string where
  \<open>scalar_table_json = ''{"t": 1}''\<close>

definition scalar_row_json :: string where
  \<open>scalar_row_json = ''{"t": [1]}''\<close>

definition canned_json_loads :: "pyval \<Rightarrow> exn + pyval" where
  "canned_json_loads s =
     (case s of
        PStr text \<Rightarrow>
          (if text = tables_json then Inr tables_value
           else if text = empty_table_json then Inr (PDict [(''t'', PList [])])
           else if text = scalar_table_json then Inr (PDict [(''t'', PInt 1)])
           else if text = scalar_row_json then Inr (PDict [(''t'', PList [PInt 1])])
           else if text = ''[1]'' then Inr (PList [PInt 1])
           else if text = ''not json''
           then Inl (JSONDecodeError ''Expecting value: line 1 column 1 (char 0)'')
           else Inl no_canned_answer)
      | PInt i \<Rightarrow>
          Inl (OtherError ''TypeError''
                 ''the JSON object must be str, bytes or bytearray, not int'')
      | _ \<Rightarrow> Inl no_canned_answer)"

text \<open>
  \<^verbatim>\<open>execute\<close> builds the schema from the tables before it reads the query. A table
  without rows has no columns, and the schema made of it is rejected with an
  \<^verbatim>\<open>ExecuteError\<close>, whatever the query is.
\<close>

definition canned_execute :: "pyval \<Rightarrow> pyval \<Rightarrow> pyval \<Rightarrow> exn + exec_result option" where
  "canned_execute sql tables dialect =
     (if tables = PDict [(''t'', PList [])]
      then Inl (OtherError ''ExecuteError''
                  ''Tables must support the same table args as schema'')
      else if sql = PStr ''SELECT SUM(v) AS total FROM t'' \<and> tables = tables_value
              \<and> dialect = PNone
      then Inr (Some \<lparr>result_columns = Some [''total''],
                       result_rows = Some [PTuple [PInt 30]],
                       result_iter = Some [PTuple [PInt 30]]\<rparr>)
      else Inl no_canned_answer)"

definition canned_lib :: "expression sqlglot" where
  "canned_lib =
     \<lparr>parse_one = canned_parse_one,
      parse = canned_parse,
      transpile = canned_transpile,
      optimize = canned_optimize,
      execute = canned_execute,
      expr_sql = (\<lambda>e kwargs. Inr (pretty_sql e)),
      type_name = class_name,
      find_all_Table = tables_found,
      find_all_Column = columns_found,
      select_expressions = selects_found,
      find_all_Func = funcs_found,
      find_all_Join = joins_found,
      find_all_Subquery = subqueries_found,
      find_all_Where = wheres_found,
      group_expressions = groups_found,
      order_expressions = orders_found,
      json_loads = canned_json_loads,
      py_repr = (\<lambda>v. ''...'')\<rparr>"

section \<open>Auxiliary facts\<close>

lemma bind_exn_Inr:
  "bind_exn m f = Inr y \<longleftrightarrow> (\<exists>x. m = Inr x \<and> f x = Inr y)"
  by (cases m) (simp_all add: bind_exn_def)

lemma collect_columns_set:
  "set (collect_columns acc nodes) = set acc \<union> column_info ` set nodes"
  by (induction nodes arbitrary: acc) auto

lemma collect_columns_distinct:
  "distinct acc \<Longrightarrow> distinct (collect_columns acc nodes)"
  by (induction nodes arbitrary: acc) auto

lemma count_list_distinct:
  "distinct xs \<Longrightarrow> x \<in> set xs \<Longrightarrow> count_list xs x = 1"
  by (induction xs) auto

text \<open>
  The entry of a column node is a function of the deduplication key (name, table
  qualifier, \<^verbatim>\<open>alias_or_name\<close>), and different keys give different entries.
\<close>

lemma column_entry_inj:
  "inj (\<lambda>(n :: string, t :: string, a :: string).
          PDict [(''name'', PStr n),
                 (''table'', if t = [] then PNone else PStr t),
                 (''alias_or_name'', PStr a)])"
  by (rule injI) (auto split: if_splits)

lemma collect_columns_length:
  "length (collect_columns [] nodes)
     = card ((\<lambda>c. (column_name c, column_table c, column_alias_or_name c)) ` set nodes)"
proof -
  let ?key = "\<lambda>c. (column_name c, column_table c, column_alias_or_name c)"
  let ?entry = "\<lambda>(n :: string, t :: string, a :: string).
                  PDict [(''name'', PStr n),
                         (''table'', if t = [] then PNone else PStr t),
                         (''alias_or_name'', PStr a)]"
  have "distinct (collect_columns [] nodes)" by (simp add: collect_columns_distinct)
  then have "length (collect_columns [] nodes) = card (set (collect_columns [] nodes))"
    by (simp add: distinct_card)
  also have "set (collect_columns [] nodes) = column_info ` set nodes"
    by (simp add: collect_columns_set)
  also have "column_info ` set nodes = ?entry ` (?key ` set nodes)"
    unfolding image_image by (rule image_cong) (simp_all add: column_info_def)
  also have "card (?entry ` (?key ` set nodes)) = card (?key ` set nodes)"
    by (rule card_image) (rule inj_on_subset[OF column_entry_inj], simp)
  finally show ?thesis .
qed

lemma distinct_singleton_set:
  assumes "distinct xs" and "set xs = {x}"
  shows "xs = [x]"
proof (cases xs)
  case Nil
  with assms show ?thesis by simp
next
  case (Cons a as)
  with assms have "a = x" and "set as \<subseteq> {x}" and "a \<notin> set as" by auto
  then have "as = []" by (cases as) auto
  with Cons \<open>a = x\<close> show ?thesis by simp
qed

text \<open>The response of an analysis that raised nothing.\<close>

lemma analyze_parsed_Inr:
  assumes "analyze_parsed lib parsed sql dialect = Inr (summary, response)"
  shows "\<exists>aliases functions joins subqueries where_conditions group_by order_by.
           collect_joins [] (find_all_Join lib parsed) = Inr joins \<and>
           response =
             PDict [(''query_type'', PStr (type_name lib parsed)),
                    (''tables'', PList (collect_tables [] (find_all_Table lib parsed))),
                    (''columns'', PList (collect_columns [] (find_all_Column lib parsed))),
                    (''aliases'', PList aliases),
                    (''functions'', PList (map function_info functions)),
                    (''joins'', PList joins),
                    (''subqueries'', PList subqueries),
                    (''where_conditions'', PList where_conditions),
                    (''group_by'', PList group_by),
                    (''order_by'', PList order_by),
                    (''dialect'', dialect_label dialect),
                    (''original_sql'', sql)]"
  using assms
  unfolding analyze_parsed_def Let_def bind_exn_Inr
  by auto

lemma collect_joins_Inr:
  "collect_joins acc nodes = Inr joins \<Longrightarrow>
     \<exists>js. joins = acc @ js \<and> list_all2 (\<lambda>n j. join_info n = Inr j) nodes js"
proof (induction nodes arbitrary: acc)
  case Nil
  then show ?case by simp
next
  case (Cons n nodes)
  from Cons.prems obtain info where i: "join_info n = Inr info"
    and r: "collect_joins (acc @ [info]) nodes = Inr joins"
    by (auto simp add: bind_exn_Inr)
  from Cons.IH[OF r] obtain js where "joins = (acc @ [info]) @ js"
    and "list_all2 (\<lambda>n j. join_info n = Inr j) nodes js" by blast
  with i show ?case by (intro exI[of _ "info # js"]) simp
qed

lemma join_info_type:
  "join_info n = Inr j \<Longrightarrow>
     \<exists>d. j = PDict d \<and> map_of d ''type'' = Some (PStr (join_type n))"
  by (auto simp add: join_info_def bind_exn_Inr)

section \<open>Metadata extraction\<close>

text \<open>
  Claim C4. Metadata extraction deduplicates column references by the key
  (name, table qualifier, \<^verbatim>\<open>alias_or_name\<close>). Whenever the analysis of a parsed
  statement produces a response, its \<^verbatim>\<open>columns\<close> list has no two equal entries; its
  entries are exactly the dicts \<^verbatim>\<open>{"name", "table", "alias_or_name"}\<close> of the column
  nodes of the statement, with \<^verbatim>\<open>table\<close> null for an unqualified column; there are as
  many entries as there are different keys among the nodes; and so the list holds
  exactly one entry for every column node, however often the same qualified column
  occurs.
\<close>

theorem analyze_columns_deduplicated:
  assumes "analyze_parsed lib parsed sql dialect = Inr (summary, PDict response)"
  shows "\<exists>columns. map_of response ''columns'' = Some (PList columns)
           \<and> distinct columns
           \<and> set columns =
               (\<lambda>c. PDict [(''name'', PStr (column_name c)),
                            (''table'', if column_table c = [] then PNone
                                        else PStr (column_table c)),
                            (''alias_or_name'', PStr (column_alias_or_name c))])
                 ` set (find_all_Column lib parsed)
           \<and> length columns =
               card ((\<lambda>c. (column_name c, column_table c, column_alias_or_name c))
                       ` set (find_all_Column lib parsed))
           \<and> (\<forall>c \<in> set (find_all_Column lib parsed).
                 count_list columns
                   (PDict [(''name'', PStr (column_name c)),
                           (''table'', if column_table c = [] then PNone
                                       else PStr (column_table c)),
                           (''alias_or_name'', PStr (column_alias_or_name c))]) = 1)"
proof -
  let ?columns = "collect_columns [] (find_all_Column lib parsed)"
  let ?entry = "\<lambda>c. PDict [(''name'', PStr (column_name c)),
                            (''table'', if column_table c = [] then PNone
                                        else PStr (column_table c)),
                            (''alias_or_name'', PStr (column_alias_or_name c))]"
  have e: "column_info = ?entry" by (rule ext) (simp add: column_info_def)
  from analyze_parsed_Inr[OF assms]
  have m: "map_of response ''columns'' = Some (PList ?columns)" by auto
  have d: "distinct ?columns" by (simp add: collect_columns_distinct)
  have s: "set ?columns = ?entry ` set (find_all_Column lib parsed)"
    using collect_columns_set[of "[]" "find_all_Column lib parsed"] unfolding e by simp
  have l: "length ?columns =
             card ((\<lambda>c. (column_name c, column_table c, column_alias_or_name c))
                     ` set (find_all_Column lib parsed))"
    by (rule collect_columns_length)
  have "\<forall>c \<in> set (find_all_Column lib parsed). count_list ?columns (?entry c) = 1"
  proof
    fix c assume "c \<in> set (find_all_Column lib parsed)"
    with s have "?entry c \<in> set ?columns" by blast
    with d show "count_list ?columns (?entry c) = 1" by (rule count_list_distinct)
  qed
  with m d s l show ?thesis by blast
qed

text \<open>
  The statement \<^verbatim>\<open>SELECT a.x, a.x FROM t a\<close>, in which the column \<^verbatim>\<open>a.x\<close> occurs
  twice, analysed with the stand-in library: one entry.
\<close>

theorem analyze_columns_deduplicated_witness:
  "\<exists>summary response.
     analyze_parsed canned_lib select_dup (PStr ''SELECT a.x, a.x FROM t a'') (PStr '''')
       = Inr (summary, PDict response)
     \<and> find_all_Column canned_lib select_dup =
         [\<lparr>column_name = ''x'', column_table = ''a'', column_alias_or_name = ''x''\<rparr>,
          \<lparr>column_name = ''x'', column_table = ''a'', column_alias_or_name = ''x''\<rparr>]
     \<and> map_of response ''columns'' =
         Some (PList [PDict [(''name'', PStr ''x''), (''table'', PStr ''a''),
                             (''alias_or_name'', PStr ''x'')]])"
proof -
  let ?q = "PStr ''SELECT a.x, a.x FROM t a''"
  let ?x = "PDict [(''name'', PStr ''x''), (''table'', PStr ''a''),
                   (''alias_or_name'', PStr ''x'')]"
  have "\<exists>s r. analyze_parsed canned_lib select_dup ?q (PStr '''') = Inr (s, PDict r)"
    by (simp add: analyze_parsed_def canned_lib_def select_dup_def bind_exn_def)
  then obtain s r where h:
    "analyze_parsed canned_lib select_dup ?q (PStr '''') = Inr (s, PDict r)" by blast
  have n: "find_all_Column canned_lib select_dup =
         [\<lparr>column_name = ''x'', column_table = ''a'', column_alias_or_name = ''x''\<rparr>,
          \<lparr>column_name = ''x'', column_table = ''a'', column_alias_or_name = ''x''\<rparr>]"
    by (simp add: canned_lib_def select_dup_def)
  from analyze_columns_deduplicated[OF h] obtain columns where
    m: "map_of r ''columns'' = Some (PList columns)"
    and d: "distinct columns"
    and st: "set columns =
               (\<lambda>c. PDict [(''name'', PStr (column_name c)),
                            (''table'', if column_table c = [] then PNone
                                        else PStr (column_table c)),
                            (''alias_or_name'', PStr (column_alias_or_name c))])
                 ` set (find_all_Column canned_lib select_dup)"
    by blast
  from st have "set columns = {?x}" unfolding n by simp
  with d have "columns = [?x]" by (rule distinct_singleton_set)
  with h n m show ?thesis by blast
qed

text \<open>
  Claim C6. Metadata extraction reports one join entry per join node, in order, and the
  entry of a join whose \<^verbatim>\<open>kind\<close> is empty (a bare \<^verbatim>\<open>JOIN ... ON ...\<close>) has the type
  \<^verbatim>\<open>"INNER"\<close>; the entry of a join with a kind has that kind.
\<close>

theorem analyze_joins_default_inner:
  assumes "analyze_parsed lib parsed sql dialect = Inr (summary, PDict response)"
  shows "\<exists>joins. map_of response ''joins'' = Some (PList joins)
           \<and> length joins = length (find_all_Join lib parsed)
           \<and> (\<forall>i < length joins. \<exists>d. joins ! i = PDict d
                 \<and> (join_kind (find_all_Join lib parsed ! i) = []
                      \<longrightarrow> map_of d ''type'' = Some (PStr ''INNER''))
                 \<and> (join_kind (find_all_Join lib parsed ! i) \<noteq> []
                      \<longrightarrow> map_of d ''type'' = Some (PStr (join_kind (find_all_Join lib parsed ! i)))))"
proof -
  from analyze_parsed_Inr[OF assms] obtain joins where
    c: "collect_joins [] (find_all_Join lib parsed) = Inr joins"
    and m: "map_of response ''joins'' = Some (PList joins)" by auto
  from collect_joins_Inr[OF c]
  have l: "list_all2 (\<lambda>n j. join_info n = Inr j) (find_all_Join lib parsed) joins" by simp
  then have len: "length joins = length (find_all_Join lib parsed)"
    by (simp add: list_all2_lengthD)
  have "\<exists>d. joins ! i = PDict d
          \<and> (join_kind (find_all_Join lib parsed ! i) = []
               \<longrightarrow> map_of d ''type'' = Some (PStr ''INNER''))
          \<and> (join_kind (find_all_Join lib parsed ! i) \<noteq> []
               \<longrightarrow> map_of d ''type'' = Some (PStr (join_kind (find_all_Join lib parsed ! i))))"
    if "i < length joins" for i
  proof -
    from that len have "i < length (find_all_Join lib parsed)" by simp
    with l have "join_info (find_all_Join lib parsed ! i) = Inr (joins ! i)"
      by (rule list_all2_nthD)
    from join_info_type[OF this] show ?thesis by (auto simp add: join_type_def)
  qed
  with m len show ?thesis by blast
qed

text \<open>
  The statement \<^verbatim>\<open>SELECT * FROM a JOIN b ON a.id=b.id\<close>, with its one bare join,
  analysed with the stand-in library: one entry, of type \<^verbatim>\<open>"INNER"\<close>.
\<close>

theorem analyze_joins_default_inner_witness:
  "\<exists>summary response.
     analyze_parsed canned_lib select_join (PStr ''SELECT * FROM a JOIN b ON a.id=b.id'')
         (PStr '''')
       = Inr (summary, PDict response)
     \<and> join_kind (find_all_Join canned_lib select_join ! 0) = []
     \<and> (\<exists>d. map_of response ''joins'' = Some (PList [PDict d])
           \<and> map_of d ''type'' = Some (PStr ''INNER''))"
proof -
  let ?q = "PStr ''SELECT * FROM a JOIN b ON a.id=b.id''"
  have "\<exists>s r. analyze_parsed canned_lib select_join ?q (PStr '''') = Inr (s, PDict r)"
    by (simp add: analyze_parsed_def canned_lib_def select_join_def bind_exn_def
          join_info_def)
  then obtain s r where h:
    "analyze_parsed canned_lib select_join ?q (PStr '''') = Inr (s, PDict r)" by blast
  have k: "join_kind (find_all_Join canned_lib select_join ! 0) = []"
    and n: "length (find_all_Join canned_lib select_join) = 1"
    by (simp_all add: canned_lib_def select_join_def)
  from analyze_joins_default_inner[OF h] obtain joins where
    m: "map_of r ''joins'' = Some (PList joins)"
    and l: "length joins = length (find_all_Join canned_lib select_join)"
    and a: "\<forall>i < length joins. \<exists>d. joins ! i = PDict d
              \<and> (join_kind (find_all_Join canned_lib select_join ! i) = []
                   \<longrightarrow> map_of d ''type'' = Some (PStr ''INNER''))
              \<and> (join_kind (find_all_Join canned_lib select_join ! i) \<noteq> []
                   \<longrightarrow> map_of d ''type''
                       = Some (PStr (join_kind (find_all_Join canned_lib select_join ! i))))"
    by blast
  from l n obtain j where j: "joins = [j]" by (cases joins) auto
  with a k obtain d where "j = PDict d" "map_of d ''type'' = Some (PStr ''INNER'')"
    by auto
  with h k m j show ?thesis by blast
qed

section \<open>No exception leaves a tool\<close>

lemma handle_errors_out:
  "\<exists>t. handle_errors prefix sql e =
     ([TextMessage t, JsonMessage (error_response (exn_type_name e) (exn_str e) sql)], None)"
  by (cases e) simp_all

lemma validate_handler_out:
  "\<exists>t d. validate_handler sql dialect e = ([TextMessage t, JsonMessage (PDict d)], None)
     \<and> map_of d ''error_type'' = Some (PStr (exn_type_name e))
     \<and> map_of d ''error_message'' = Some (PStr (exn_str e))
     \<and> map_of d ''original_sql'' = Some sql"
  by (cases e) (simp_all add: Let_def)

text \<open>A body that returns has yielded something.\<close>

lemma analyze_try_yields: "analyze_try lib sql dialect = (ms, None) \<Longrightarrow> ms \<noteq> []"
  by (auto simp add: analyze_try_def split: sum.splits option.splits prod.splits)

lemma format_try_yields:
  "format_try lib sql dialect identify normalise = (ms, None) \<Longrightarrow> ms \<noteq> []"
  by (auto simp add: format_try_def Let_def split: sum.splits if_splits)

lemma transpile_try_yields:
  "transpile_try lib sql source_dialect target_dialect pretty = (ms, None) \<Longrightarrow> ms \<noteq> []"
  by (auto simp add: transpile_try_def Let_def split: sum.splits list.splits)

lemma validate_try_yields: "validate_try lib sql dialect = (ms, None) \<Longrightarrow> ms \<noteq> []"
  by (auto simp add: validate_try_def Let_def split: sum.splits if_splits)

lemma optimize_parsed_yields:
  "optimize_parsed lib parsed sql dialect schema = (ms, None) \<Longrightarrow> ms \<noteq> []"
  by (auto simp add: optimize_parsed_def Let_def split: sum.splits prod.splits)

lemma optimize_try_yields: "optimize_try lib sql dialect schema_str = (ms, None) \<Longrightarrow> ms \<noteq> []"
  by (auto simp add: optimize_try_def split: sum.splits option.splits exn.splits
        dest: optimize_parsed_yields)

lemma execute_checked_yields:
  "execute_checked lib sql tables dialect = (ms, None) \<Longrightarrow> ms \<noteq> []"
  by (auto simp add: execute_checked_def Let_def split: sum.splits prod.splits)

lemma execute_try_yields: "execute_try lib sql tables_str dialect = (ms, None) \<Longrightarrow> ms \<noteq> []"
  by (auto simp add: execute_try_def split: sum.splits option.splits exn.splits pyval.splits
        dest: execute_checked_yields)

text \<open>
  A \<^verbatim>\<open>try\<close> whose body yields before it returns, closed by handlers that yield and
  return: nothing escapes, and something was yielded.
\<close>

lemma try_except_safe:
  assumes "\<And>ms. body = (ms, None) \<Longrightarrow> ms \<noteq> []"
    and "\<And>e. \<exists>m ms. handler e = (m # ms, None)"
  shows "snd (try_except body handler) = None \<and> fst (try_except body handler) \<noteq> []"
proof (cases body)
  case (Pair ms r)
  show ?thesis
  proof (cases r)
    case None
    with Pair assms(1) show ?thesis by (simp add: try_except_def)
  next
    case (Some e)
    from assms(2)[of e] obtain m ms' where "handler e = (m # ms', None)" by blast
    with Pair Some show ?thesis by (simp add: try_except_def)
  qed
qed

lemma handle_errors_yields: "\<exists>m ms. handle_errors prefix sql e = (m # ms, None)"
  using handle_errors_out[of prefix sql e] by auto

lemma validate_handler_yields: "\<exists>m ms. validate_handler sql dialect e = (m # ms, None)"
  using validate_handler_out[of sql dialect e] by auto

lemma analyze_safe:
  "snd (AnalyzeSqlTool_invoke lib tp) = None \<and> fst (AnalyzeSqlTool_invoke lib tp) \<noteq> []"
proof -
  have "snd (try_except (analyze_try lib sql dialect) (handle_errors p sql)) = None
          \<and> fst (try_except (analyze_try lib sql dialect) (handle_errors p sql)) \<noteq> []" for sql dialect p
    by (rule try_except_safe) (auto dest: analyze_try_yields simp add: handle_errors_yields)
  then show ?thesis by (simp add: AnalyzeSqlTool_invoke_def Let_def)
qed

lemma format_safe:
  "snd (FormatSqlTool_invoke lib tp) = None \<and> fst (FormatSqlTool_invoke lib tp) \<noteq> []"
proof -
  have "snd (try_except (format_try lib sql dialect identify normalise) (handle_errors p sql)) = None
          \<and> fst (try_except (format_try lib sql dialect identify normalise) (handle_errors p sql)) \<noteq> []" for sql dialect identify normalise p
    by (rule try_except_safe) (auto dest: format_try_yields simp add: handle_errors_yields)
  then show ?thesis by (simp add: FormatSqlTool_invoke_def Let_def)
qed

lemma transpile_safe:
  "snd (TranspileSqlTool_invoke lib tp) = None \<and> fst (TranspileSqlTool_invoke lib tp) \<noteq> []"
proof -
  have "snd (try_except (transpile_try lib sql source_dialect target_dialect pretty) (handle_errors p sql)) = None
          \<and> fst (try_except (transpile_try lib sql source_dialect target_dialect pretty) (handle_errors p sql)) \<noteq> []" for sql source_dialect target_dialect pretty p
    by (rule try_except_safe) (auto dest: transpile_try_yields simp add: handle_errors_yields)
  then show ?thesis by (simp add: TranspileSqlTool_invoke_def Let_def)
qed

lemma validate_safe:
  "snd (ValidateSqlTool_invoke lib tp) = None \<and> fst (ValidateSqlTool_invoke lib tp) \<noteq> []"
proof -
  have "snd (try_except (validate_try lib sql dialect) (validate_handler sql dialect)) = None
          \<and> fst (try_except (validate_try lib sql dialect) (validate_handler sql dialect)) \<noteq> []" for sql dialect p
    by (rule try_except_safe) (auto dest: validate_try_yields simp add: validate_handler_yields)
  then show ?thesis by (simp add: ValidateSqlTool_invoke_def Let_def)
qed

lemma optimize_safe:
  "snd (OptimizeSqlTool_invoke lib tp) = None \<and> fst (OptimizeSqlTool_invoke lib tp) \<noteq> []"
proof -
  have "snd (try_except (optimize_try lib sql dialect schema_str) (handle_errors p sql)) = None
          \<and> fst (try_except (optimize_try lib sql dialect schema_str) (handle_errors p sql)) \<noteq> []" for sql dialect schema_str p
    by (rule try_except_safe) (auto dest: optimize_try_yields simp add: handle_errors_yields)
  then show ?thesis by (simp add: OptimizeSqlTool_invoke_def Let_def)
qed

lemma execute_safe:
  "snd (ExecuteSqlTool_invoke lib tp) = None \<and> fst (ExecuteSqlTool_invoke lib tp) \<noteq> []"
proof -
  have "snd (try_except (execute_try lib sql tables_str dialect) (handle_errors p sql)) = None
          \<and> fst (try_except (execute_try lib sql tables_str dialect) (handle_errors p sql)) \<noteq> []" for sql tables_str dialect p
    by (rule try_except_safe) (auto dest: execute_try_yields simp add: handle_errors_yields)
  then show ?thesis by (simp add: ExecuteSqlTool_invoke_def Let_def)
qed

section \<open>Required parameters\<close>

text \<open>
  Claim C10. When the \<^verbatim>\<open>sql\<close> parameter is absent or the empty string, each of the six
  tools yields the single message \<^verbatim>\<open>"SQL query is required."\<close> and returns, whatever
  the library would answer. With a query, ExecuteSqlTool asks for a non-empty \<^verbatim>\<open>tables\<close>
  parameter and TranspileSqlTool for a non-empty \<^verbatim>\<open>target_dialect\<close> in the same way.
\<close>

theorem required_parameters:
  "((tp ''sql'' = None \<or> tp ''sql'' = Some (PStr ''''))
      \<longrightarrow> AnalyzeSqlTool_invoke lib tp = ([TextMessage ''SQL query is required.''], None)
        \<and> FormatSqlTool_invoke lib tp = ([TextMessage ''SQL query is required.''], None)
        \<and> TranspileSqlTool_invoke lib tp = ([TextMessage ''SQL query is required.''], None)
        \<and> ValidateSqlTool_invoke lib tp = ([TextMessage ''SQL query is required.''], None)
        \<and> OptimizeSqlTool_invoke lib tp = ([TextMessage ''SQL query is required.''], None)
        \<and> ExecuteSqlTool_invoke lib tp = ([TextMessage ''SQL query is required.''], None))
   \<and> (truthy (get_param tp ''sql'' (PStr ''''))
        \<and> (tp ''tables'' = None \<or> tp ''tables'' = Some (PStr ''''))
      \<longrightarrow> ExecuteSqlTool_invoke lib tp = ([TextMessage ''Data tables are required.''], None))
   \<and> (truthy (get_param tp ''sql'' (PStr ''''))
        \<and> (tp ''target_dialect'' = None \<or> tp ''target_dialect'' = Some (PStr ''''))
      \<longrightarrow> TranspileSqlTool_invoke lib tp = ([TextMessage ''Target dialect is required.''], None))"
  by (auto simp add: get_param_def AnalyzeSqlTool_invoke_def FormatSqlTool_invoke_def
        TranspileSqlTool_invoke_def ValidateSqlTool_invoke_def OptimizeSqlTool_invoke_def
        ExecuteSqlTool_invoke_def)

theorem required_parameters_witness:
  "(Map.empty :: params) ''sql'' = None
   \<and> AnalyzeSqlTool_invoke canned_lib Map.empty = ([TextMessage ''SQL query is required.''], None)
   \<and> FormatSqlTool_invoke canned_lib Map.empty = ([TextMessage ''SQL query is required.''], None)
   \<and> TranspileSqlTool_invoke canned_lib Map.empty = ([TextMessage ''SQL query is required.''], None)
   \<and> ValidateSqlTool_invoke canned_lib Map.empty = ([TextMessage ''SQL query is required.''], None)
   \<and> OptimizeSqlTool_invoke canned_lib Map.empty = ([TextMessage ''SQL query is required.''], None)
   \<and> ExecuteSqlTool_invoke canned_lib Map.empty = ([TextMessage ''SQL query is required.''], None)
   \<and> truthy (get_param [''sql'' \<mapsto> PStr ''SELECT 1''] ''sql'' (PStr ''''))
   \<and> [''sql'' \<mapsto> PStr ''SELECT 1''] ''tables'' = None
   \<and> [''sql'' \<mapsto> PStr ''SELECT 1''] ''target_dialect'' = None
   \<and> ExecuteSqlTool_invoke canned_lib [''sql'' \<mapsto> PStr ''SELECT 1'']
       = ([TextMessage ''Data tables are required.''], None)
   \<and> TranspileSqlTool_invoke canned_lib [''sql'' \<mapsto> PStr ''SELECT 1'']
       = ([TextMessage ''Target dialect is required.''], None)"
  using required_parameters[of Map.empty canned_lib]
    required_parameters[of "[''sql'' \<mapsto> PStr ''SELECT 1'']" canned_lib]
  by (simp add: get_param_def)

section \<open>Failures are answered with messages\<close>

text \<open>What the two shared handlers yield, written out.\<close>

lemma handle_errors_answer:
  "handle_errors prefix sql e =
     ([TextMessage (case e of ParseError msg errs \<Rightarrow> ''SQL Parse Error: '' @ msg
                    | JSONDecodeError msg \<Rightarrow> prefix @ msg
                    | OtherError cls msg \<Rightarrow> prefix @ msg),
       JsonMessage (PDict [(''success'', PBool False),
                           (''error_type'', PStr (exn_type_name e)),
                           (''error_message'', PStr (exn_str e)),
                           (''original_sql'', sql)])], None)"
  by (cases e) (simp_all add: error_response_def)

lemma validate_handler_answer:
  "\<exists>t d. validate_handler sql dialect e = ([TextMessage t, JsonMessage (PDict d)], None)
     \<and> map_of d ''valid'' = Some (PBool False)
     \<and> map_of d ''error_type'' = Some (PStr (exn_type_name e))
     \<and> map_of d ''error_message'' = Some (PStr (exn_str e))
     \<and> map_of d ''original_sql'' = Some sql"
  by (cases e) (simp_all add: Let_def)

text \<open>Statements that are all \<^verbatim>\<open>None\<close>.\<close>

lemma valid_statements_of_none:
  "set stmts \<subseteq> {None} \<Longrightarrow> valid_statements_of stmts = []"
  by (induction stmts rule: valid_statements_of.induct) simp_all

lemma format_statements_none:
  "set stmts \<subseteq> {None} \<Longrightarrow>
     format_statements lib parse_dialect identify normalise acc stmts = Inr acc"
  by (induction stmts arbitrary: acc) auto

text \<open>Tables that are lists of dicts pass the check of the table structure.\<close>

lemma check_rows_dicts:
  "check_rows tbl_name (map PDict rows @ rest) = check_rows tbl_name rest"
  by (induction rows) simp_all

lemma check_tables_good:
  "\<forall>kv \<in> set good. \<exists>rows. snd kv = PList (map PDict rows) \<Longrightarrow>
     check_tables (good @ rest) = check_tables rest"
proof (induction good)
  case Nil
  then show ?case by simp
next
  case (Cons kv good)
  obtain k v where kv: "kv = (k, v)" by (cases kv)
  from Cons.prems kv obtain rows where v: "v = PList (map PDict rows)" by auto
  have "check_rows k (map PDict rows) = None"
    using check_rows_dicts[of k rows "[]"] by simp
  with Cons kv v show ?case by simp
qed

lemma check_tables_not_list:
  assumes "\<forall>kv \<in> set good. \<exists>rows. snd kv = PList (map PDict rows)"
    and "\<forall>rows. v \<noteq> PList rows"
  shows "check_tables (good @ (tbl_name, v) # rest) =
           Some (''Table '' @ CHR 0x27 # tbl_name @ CHR 0x27 # '' must be an array of row objects.'')"
  using assms(2) by (cases v) (simp_all add: check_tables_good[OF assms(1)])

lemma check_tables_not_dict:
  assumes "\<forall>kv \<in> set good. \<exists>rows. snd kv = PList (map PDict rows)"
    and "\<forall>d. r \<noteq> PDict d"
  shows "check_tables (good @ (tbl_name, PList (map PDict rows @ r # others)) # rest) =
           Some (''Each row in table '' @ CHR 0x27 # tbl_name @ CHR 0x27 # '' must be an object.'')"
proof -
  have "check_rows tbl_name (r # others) =
          Some (''Each row in table '' @ CHR 0x27 # tbl_name @ CHR 0x27 # '' must be an object.'')"
    using assms(2) by (cases r) simp_all
  then show ?thesis
    by (simp add: check_tables_good[OF assms(1)] check_rows_dicts)
qed

lemma check_tables_all_good:
  assumes "\<forall>kv \<in> set tables. \<exists>rows. snd kv = PList (map PDict rows)"
  shows "check_tables tables = None"
  using check_tables_good[OF assms, of "[]"] by simp

text \<open>
  Claim C1, as the code has it. The model takes every call of the library to return or
  to raise an exception of class \<^verbatim>\<open>Exception\<close>. Then each of the six tools returns
  after yielding at least one message, and no exception leaves it. What a tool yields
  on a failure depends on where the failure is met:

  \<^item> a missing \<^verbatim>\<open>sql\<close>, \<^verbatim>\<open>tables\<close> or \<^verbatim>\<open>target_dialect\<close> parameter: one text message;

  \<^item> an exception that leaves the \<^verbatim>\<open>try\<close> block of a tool: what was yielded before
    it, then a text message (\<^verbatim>\<open>"SQL Parse Error: "\<close> or the prefix of the tool,
    followed by the text of the exception) and the JSON payload
    \<^verbatim>\<open>{success: false, error_type, error_message, original_sql}\<close>; for
    ValidateSqlTool the payload has \<^verbatim>\<open>valid: false\<close> in place of \<^verbatim>\<open>success\<close> and
    may hold more keys;

  \<^item> \<^verbatim>\<open>parse_one\<close> returning \<^verbatim>\<open>None\<close>, \<^verbatim>\<open>parse\<close> or \<^verbatim>\<open>transpile\<close> returning an empty
    list, a formatting that finds no statement, undecodable JSON in \<^verbatim>\<open>schema\<close> or
    \<^verbatim>\<open>tables\<close>, tables that are not a JSON object, a table that is not a list, a row
    that is not an object: one text message, and no payload;

  \<^item> a validation that finds no statement: a text message and the payload
    \<^verbatim>\<open>{valid: false, error, original_sql}\<close>;

  \<^item> an exception of \<^verbatim>\<open>execute\<close> in ExecuteSqlTool: the text
    \<^verbatim>\<open>"Query execution failed: "\<close> followed by the text of the exception, and the
    payload \<^verbatim>\<open>{success: false, error, original_sql}\<close>, without \<^verbatim>\<open>error_type\<close>.

  The tables that pass the check of the table structure are those whose values are
  lists of dicts; \<open>good\<close> stands for the tables met before the first faulty one.
\<close>

theorem tools_never_raise:
  assumes "sql = get_param tp ''sql'' (PStr '''')"
    and "dialect = get_param tp ''dialect'' (PStr '''')"
    and "target_dialect = get_param tp ''target_dialect'' (PStr '''')"
    and "schema_str = get_param tp ''schema'' (PStr '''')"
    and "tables_str = get_param tp ''tables'' (PStr '''')"
  shows
   "snd (AnalyzeSqlTool_invoke lib tp) = None \<and> fst (AnalyzeSqlTool_invoke lib tp) \<noteq> []
    \<and> snd (FormatSqlTool_invoke lib tp) = None \<and> fst (FormatSqlTool_invoke lib tp) \<noteq> []
    \<and> snd (TranspileSqlTool_invoke lib tp) = None \<and> fst (TranspileSqlTool_invoke lib tp) \<noteq> []
    \<and> snd (ValidateSqlTool_invoke lib tp) = None \<and> fst (ValidateSqlTool_invoke lib tp) \<noteq> []
    \<and> snd (OptimizeSqlTool_invoke lib tp) = None \<and> fst (OptimizeSqlTool_invoke lib tp) \<noteq> []
    \<and> snd (ExecuteSqlTool_invoke lib tp) = None \<and> fst (ExecuteSqlTool_invoke lib tp) \<noteq> []
    \<and> (\<not> truthy sql
         \<longrightarrow> AnalyzeSqlTool_invoke lib tp = ([TextMessage ''SQL query is required.''], None)
           \<and> FormatSqlTool_invoke lib tp = ([TextMessage ''SQL query is required.''], None)
           \<and> TranspileSqlTool_invoke lib tp = ([TextMessage ''SQL query is required.''], None)
           \<and> ValidateSqlTool_invoke lib tp = ([TextMessage ''SQL query is required.''], None)
           \<and> OptimizeSqlTool_invoke lib tp = ([TextMessage ''SQL query is required.''], None)
           \<and> ExecuteSqlTool_invoke lib tp = ([TextMessage ''SQL query is required.''], None))
    \<and> (truthy sql \<and> \<not> truthy tables_str
         \<longrightarrow> ExecuteSqlTool_invoke lib tp = ([TextMessage ''Data tables are required.''], None))
    \<and> (truthy sql \<and> \<not> truthy target_dialect
         \<longrightarrow> TranspileSqlTool_invoke lib tp
               = ([TextMessage ''Target dialect is required.''], None))
    \<and> (truthy sql \<and> parse_one lib sql (parse_dialect_of dialect) = Inr None
         \<longrightarrow> AnalyzeSqlTool_invoke lib tp = ([TextMessage ''Failed to parse SQL query.''], None))
    \<and> (truthy sql \<and> analyze_try lib sql dialect = (ms, Some e)
         \<longrightarrow> AnalyzeSqlTool_invoke lib tp =
               (ms @ [TextMessage
                        (case e of ParseError msg errs \<Rightarrow> ''SQL Parse Error: '' @ msg
                         | JSONDecodeError msg \<Rightarrow> ''Error analyzing SQL: '' @ msg
                         | OtherError cls msg \<Rightarrow> ''Error analyzing SQL: '' @ msg),
                      JsonMessage (PDict [(''success'', PBool False),
                                          (''error_type'', PStr (exn_type_name e)),
                                          (''error_message'', PStr (exn_str e)),
                                          (''original_sql'', sql)])], None))
    \<and> (truthy sql \<and> parse lib sql (parse_dialect_of dialect) = Inr []
         \<longrightarrow> FormatSqlTool_invoke lib tp = ([TextMessage ''Failed to parse SQL query.''], None))
    \<and> (truthy sql \<and> parse lib sql (parse_dialect_of dialect) = Inr stmts
           \<and> stmts \<noteq> [] \<and> set stmts \<subseteq> {None}
         \<longrightarrow> FormatSqlTool_invoke lib tp
               = ([TextMessage ''No valid SQL statements found.''], None))
    \<and> (truthy sql
         \<and> format_try lib sql dialect (get_param tp ''identify'' (PBool False))
             (get_param tp ''normalize'' (PBool False)) = (ms, Some e)
         \<longrightarrow> FormatSqlTool_invoke lib tp =
               (ms @ [TextMessage
                        (case e of ParseError msg errs \<Rightarrow> ''SQL Parse Error: '' @ msg
                         | JSONDecodeError msg \<Rightarrow> ''Error formatting SQL: '' @ msg
                         | OtherError cls msg \<Rightarrow> ''Error formatting SQL: '' @ msg),
                      JsonMessage (PDict [(''success'', PBool False),
                                          (''error_type'', PStr (exn_type_name e)),
                                          (''error_message'', PStr (exn_str e)),
                                          (''original_sql'', sql)])], None))
    \<and> (truthy sql \<and> truthy target_dialect
         \<and> transpile lib sql (parse_dialect_of (get_param tp ''source_dialect'' (PStr '''')))
             target_dialect (get_param tp ''pretty'' (PBool True)) = Inr []
         \<longrightarrow> TranspileSqlTool_invoke lib tp
               = ([TextMessage ''Failed to transpile SQL query.''], None))
    \<and> (truthy sql \<and> truthy target_dialect
         \<and> transpile_try lib sql (get_param tp ''source_dialect'' (PStr '''')) target_dialect
             (get_param tp ''pretty'' (PBool True)) = (ms, Some e)
         \<longrightarrow> TranspileSqlTool_invoke lib tp =
               (ms @ [TextMessage
                        (case e of ParseError msg errs \<Rightarrow> ''SQL Parse Error: '' @ msg
                         | JSONDecodeError msg \<Rightarrow> ''Error transpiling SQL: '' @ msg
                         | OtherError cls msg \<Rightarrow> ''Error transpiling SQL: '' @ msg),
                      JsonMessage (PDict [(''success'', PBool False),
                                          (''error_type'', PStr (exn_type_name e)),
                                          (''error_message'', PStr (exn_str e)),
                                          (''original_sql'', sql)])], None))
    \<and> (truthy sql \<and> parse lib sql (parse_dialect_of dialect) = Inr stmts
           \<and> set stmts \<subseteq> {None}
         \<longrightarrow> ValidateSqlTool_invoke lib tp =
               ([TextMessage ''No valid SQL statements found in the query.'',
                 JsonMessage (PDict [(''valid'', PBool False),
                                     (''error'', PStr ''No valid SQL statements found''),
                                     (''original_sql'', sql)])], None))
    \<and> (truthy sql \<and> validate_try lib sql dialect = (ms, Some e)
         \<longrightarrow> (\<exists>t d. ValidateSqlTool_invoke lib tp =
                 (ms @ [TextMessage t, JsonMessage (PDict d)], None)
               \<and> map_of d ''valid'' = Some (PBool False)
               \<and> map_of d ''error_type'' = Some (PStr (exn_type_name e))
               \<and> map_of d ''error_message'' = Some (PStr (exn_str e))
               \<and> map_of d ''original_sql'' = Some sql))
    \<and> (truthy sql \<and> parse_one lib sql (parse_dialect_of dialect) = Inr None
         \<longrightarrow> OptimizeSqlTool_invoke lib tp = ([TextMessage ''Failed to parse SQL query.''], None))
    \<and> (truthy sql \<and> parse_one lib sql (parse_dialect_of dialect) = Inr (Some parsed)
           \<and> truthy schema_str \<and> json_loads lib schema_str = Inl (JSONDecodeError jmsg)
         \<longrightarrow> OptimizeSqlTool_invoke lib tp
               = ([TextMessage (''Invalid schema JSON: '' @ jmsg)], None))
    \<and> (truthy sql \<and> optimize_try lib sql dialect schema_str = (ms, Some e)
         \<longrightarrow> OptimizeSqlTool_invoke lib tp =
               (ms @ [TextMessage
                        (case e of ParseError msg errs \<Rightarrow> ''SQL Parse Error: '' @ msg
                         | JSONDecodeError msg \<Rightarrow> ''Error optimizing SQL: '' @ msg
                         | OtherError cls msg \<Rightarrow> ''Error optimizing SQL: '' @ msg),
                      JsonMessage (PDict [(''success'', PBool False),
                                          (''error_type'', PStr (exn_type_name e)),
                                          (''error_message'', PStr (exn_str e)),
                                          (''original_sql'', sql)])], None))
    \<and> (truthy sql \<and> truthy tables_str
           \<and> json_loads lib tables_str = Inl (JSONDecodeError jmsg)
         \<longrightarrow> ExecuteSqlTool_invoke lib tp
               = ([TextMessage (''Invalid tables JSON: '' @ jmsg)], None))
    \<and> (truthy sql \<and> truthy tables_str
           \<and> json_loads lib tables_str = Inr v \<and> (\<forall>d. v \<noteq> PDict d)
         \<longrightarrow> ExecuteSqlTool_invoke lib tp
               = ([TextMessage ''Tables must be a JSON object with table names as keys.''],
                  None))
    \<and> (truthy sql \<and> truthy tables_str
           \<and> json_loads lib tables_str = Inr (PDict (good @ (tbl_name, v) # rest))
           \<and> (\<forall>kv \<in> set good. \<exists>rows. snd kv = PList (map PDict rows))
           \<and> (\<forall>rows. v \<noteq> PList rows)
         \<longrightarrow> ExecuteSqlTool_invoke lib tp
               = ([TextMessage (''Table '' @ CHR 0x27 # tbl_name @ CHR 0x27
                                # '' must be an array of row objects.'')], None))
    \<and> (truthy sql \<and> truthy tables_str
           \<and> json_loads lib tables_str
               = Inr (PDict (good @ (tbl_name, PList (map PDict rows @ r # others)) # rest))
           \<and> (\<forall>kv \<in> set good. \<exists>rows. snd kv = PList (map PDict rows))
           \<and> (\<forall>d. r \<noteq> PDict d)
         \<longrightarrow> ExecuteSqlTool_invoke lib tp
               = ([TextMessage (''Each row in table '' @ CHR 0x27 # tbl_name @ CHR 0x27
                                # '' must be an object.'')], None))
    \<and> (truthy sql \<and> truthy tables_str
           \<and> json_loads lib tables_str = Inr (PDict tables)
           \<and> (\<forall>kv \<in> set tables. \<exists>rows. snd kv = PList (map PDict rows))
           \<and> execute lib sql (PDict tables) (parse_dialect_of dialect) = Inl e
         \<longrightarrow> ExecuteSqlTool_invoke lib tp =
               ([TextMessage (''Query execution failed: '' @ exn_str e),
                 JsonMessage (PDict [(''success'', PBool False),
                                     (''error'', PStr (exn_str e)),
                                     (''original_sql'', sql)])], None))
    \<and> (truthy sql \<and> truthy tables_str
         \<and> execute_try lib sql tables_str dialect = (ms, Some e)
         \<longrightarrow> ExecuteSqlTool_invoke lib tp =
               (ms @ [TextMessage
                        (case e of ParseError msg errs \<Rightarrow> ''SQL Parse Error: '' @ msg
                         | JSONDecodeError msg \<Rightarrow> ''Error executing SQL: '' @ msg
                         | OtherError cls msg \<Rightarrow> ''Error executing SQL: '' @ msg),
                      JsonMessage (PDict [(''success'', PBool False),
                                          (''error_type'', PStr (exn_type_name e)),
                                          (''error_message'', PStr (exn_str e)),
                                          (''original_sql'', sql)])], None))"
proof (intro conjI impI; (elim conjE)?)
  show "snd (AnalyzeSqlTool_invoke lib tp) = None" by (simp add: analyze_safe)
  show "fst (AnalyzeSqlTool_invoke lib tp) \<noteq> []" by (simp add: analyze_safe)
  show "snd (FormatSqlTool_invoke lib tp) = None" by (simp add: format_safe)
  show "fst (FormatSqlTool_invoke lib tp) \<noteq> []" by (simp add: format_safe)
  show "snd (TranspileSqlTool_invoke lib tp) = None" by (simp add: transpile_safe)
  show "fst (TranspileSqlTool_invoke lib tp) \<noteq> []" by (simp add: transpile_safe)
  show "snd (ValidateSqlTool_invoke lib tp) = None" by (simp add: validate_safe)
  show "fst (ValidateSqlTool_invoke lib tp) \<noteq> []" by (simp add: validate_safe)
  show "snd (OptimizeSqlTool_invoke lib tp) = None" by (simp add: optimize_safe)
  show "fst (OptimizeSqlTool_invoke lib tp) \<noteq> []" by (simp add: optimize_safe)
  show "snd (ExecuteSqlTool_invoke lib tp) = None" by (simp add: execute_safe)
  show "fst (ExecuteSqlTool_invoke lib tp) \<noteq> []" by (simp add: execute_safe)
next
  assume "\<not> truthy sql"
  with assms show
    "AnalyzeSqlTool_invoke lib tp = ([TextMessage ''SQL query is required.''], None)"
    "FormatSqlTool_invoke lib tp = ([TextMessage ''SQL query is required.''], None)"
    "TranspileSqlTool_invoke lib tp = ([TextMessage ''SQL query is required.''], None)"
    "ValidateSqlTool_invoke lib tp = ([TextMessage ''SQL query is required.''], None)"
    "OptimizeSqlTool_invoke lib tp = ([TextMessage ''SQL query is required.''], None)"
    "ExecuteSqlTool_invoke lib tp = ([TextMessage ''SQL query is required.''], None)"
    by (simp_all add: AnalyzeSqlTool_invoke_def FormatSqlTool_invoke_def
          TranspileSqlTool_invoke_def ValidateSqlTool_invoke_def OptimizeSqlTool_invoke_def
          ExecuteSqlTool_invoke_def)
next
  assume "truthy sql" "\<not> truthy tables_str"
  with assms show
    "ExecuteSqlTool_invoke lib tp = ([TextMessage ''Data tables are required.''], None)"
    by (simp add: ExecuteSqlTool_invoke_def)
next
  assume "truthy sql" "\<not> truthy target_dialect"
  with assms show
    "TranspileSqlTool_invoke lib tp = ([TextMessage ''Target dialect is required.''], None)"
    by (simp add: TranspileSqlTool_invoke_def)
next
  assume "truthy sql" "parse_one lib sql (parse_dialect_of dialect) = Inr None"
  with assms show
    "AnalyzeSqlTool_invoke lib tp = ([TextMessage ''Failed to parse SQL query.''], None)"
    "OptimizeSqlTool_invoke lib tp = ([TextMessage ''Failed to parse SQL query.''], None)"
    by (simp_all add: AnalyzeSqlTool_invoke_def analyze_try_def OptimizeSqlTool_invoke_def
          optimize_try_def try_except_def)
next
  assume "truthy sql" "analyze_try lib sql dialect = (ms, Some e)"
  with assms show "AnalyzeSqlTool_invoke lib tp =
               (ms @ [TextMessage
                        (case e of ParseError msg errs \<Rightarrow> ''SQL Parse Error: '' @ msg
                         | JSONDecodeError msg \<Rightarrow> ''Error analyzing SQL: '' @ msg
                         | OtherError cls msg \<Rightarrow> ''Error analyzing SQL: '' @ msg),
                      JsonMessage (PDict [(''success'', PBool False),
                                          (''error_type'', PStr (exn_type_name e)),
                                          (''error_message'', PStr (exn_str e)),
                                          (''original_sql'', sql)])], None)"
    by (simp add: AnalyzeSqlTool_invoke_def try_except_def handle_errors_answer)
next
  assume "truthy sql" "parse lib sql (parse_dialect_of dialect) = Inr []"
  with assms show
    "FormatSqlTool_invoke lib tp = ([TextMessage ''Failed to parse SQL query.''], None)"
    by (simp add: FormatSqlTool_invoke_def format_try_def try_except_def)
next
  assume "truthy sql" "parse lib sql (parse_dialect_of dialect) = Inr stmts"
    "stmts \<noteq> []" "set stmts \<subseteq> {None}"
  with assms show
    "FormatSqlTool_invoke lib tp = ([TextMessage ''No valid SQL statements found.''], None)"
    by (simp add: FormatSqlTool_invoke_def format_try_def try_except_def
          format_statements_none)
next
  assume "truthy sql"
    "format_try lib sql dialect (get_param tp ''identify'' (PBool False))
             (get_param tp ''normalize'' (PBool False)) = (ms, Some e)"
  with assms show "FormatSqlTool_invoke lib tp =
               (ms @ [TextMessage
                        (case e of ParseError msg errs \<Rightarrow> ''SQL Parse Error: '' @ msg
                         | JSONDecodeError msg \<Rightarrow> ''Error formatting SQL: '' @ msg
                         | OtherError cls msg \<Rightarrow> ''Error formatting SQL: '' @ msg),
                      JsonMessage (PDict [(''success'', PBool False),
                                          (''error_type'', PStr (exn_type_name e)),
                                          (''error_message'', PStr (exn_str e)),
                                          (''original_sql'', sql)])], None)"
    by (simp add: FormatSqlTool_invoke_def try_except_def handle_errors_answer)
next
  assume "truthy sql" "truthy target_dialect"
    "transpile lib sql (parse_dialect_of (get_param tp ''source_dialect'' (PStr '''')))
             target_dialect (get_param tp ''pretty'' (PBool True)) = Inr []"
  with assms show
    "TranspileSqlTool_invoke lib tp = ([TextMessage ''Failed to transpile SQL query.''], None)"
    by (simp add: TranspileSqlTool_invoke_def transpile_try_def try_except_def)
next
  assume "truthy sql" "truthy target_dialect"
    "transpile_try lib sql (get_param tp ''source_dialect'' (PStr '''')) target_dialect
             (get_param tp ''pretty'' (PBool True)) = (ms, Some e)"
  with assms show "TranspileSqlTool_invoke lib tp =
               (ms @ [TextMessage
                        (case e of ParseError msg errs \<Rightarrow> ''SQL Parse Error: '' @ msg
                         | JSONDecodeError msg \<Rightarrow> ''Error transpiling SQL: '' @ msg
                         | OtherError cls msg \<Rightarrow> ''Error transpiling SQL: '' @ msg),
                      JsonMessage (PDict [(''success'', PBool False),
                                          (''error_type'', PStr (exn_type_name e)),
                                          (''error_message'', PStr (exn_str e)),
                                          (''original_sql'', sql)])], None)"
    by (simp add: TranspileSqlTool_invoke_def try_except_def handle_errors_answer)
next
  assume "truthy sql" "parse lib sql (parse_dialect_of dialect) = Inr stmts"
    "set stmts \<subseteq> {None}"
  with assms show "ValidateSqlTool_invoke lib tp =
               ([TextMessage ''No valid SQL statements found in the query.'',
                 JsonMessage (PDict [(''valid'', PBool False),
                                     (''error'', PStr ''No valid SQL statements found''),
                                     (''original_sql'', sql)])], None)"
    by (simp add: ValidateSqlTool_invoke_def validate_try_def try_except_def
          valid_statements_of_none)
next
  assume "truthy sql" "validate_try lib sql dialect = (ms, Some e)"
  with assms validate_handler_answer[of sql dialect e]
  show "\<exists>t d. ValidateSqlTool_invoke lib tp =
                 (ms @ [TextMessage t, JsonMessage (PDict d)], None)
               \<and> map_of d ''valid'' = Some (PBool False)
               \<and> map_of d ''error_type'' = Some (PStr (exn_type_name e))
               \<and> map_of d ''error_message'' = Some (PStr (exn_str e))
               \<and> map_of d ''original_sql'' = Some sql"
    by (auto simp add: ValidateSqlTool_invoke_def try_except_def)
next
  assume "truthy sql" "parse_one lib sql (parse_dialect_of dialect) = Inr (Some parsed)"
    "truthy schema_str" "json_loads lib schema_str = Inl (JSONDecodeError jmsg)"
  with assms show
    "OptimizeSqlTool_invoke lib tp = ([TextMessage (''Invalid schema JSON: '' @ jmsg)], None)"
    by (simp add: OptimizeSqlTool_invoke_def optimize_try_def load_schema_def try_except_def)
next
  assume "truthy sql" "optimize_try lib sql dialect schema_str = (ms, Some e)"
  with assms show "OptimizeSqlTool_invoke lib tp =
               (ms @ [TextMessage
                        (case e of ParseError msg errs \<Rightarrow> ''SQL Parse Error: '' @ msg
                         | JSONDecodeError msg \<Rightarrow> ''Error optimizing SQL: '' @ msg
                         | OtherError cls msg \<Rightarrow> ''Error optimizing SQL: '' @ msg),
                      JsonMessage (PDict [(''success'', PBool False),
                                          (''error_type'', PStr (exn_type_name e)),
                                          (''error_message'', PStr (exn_str e)),
                                          (''original_sql'', sql)])], None)"
    by (simp add: OptimizeSqlTool_invoke_def try_except_def handle_errors_answer)
next
  assume "truthy sql" "truthy tables_str"
    "json_loads lib tables_str = Inl (JSONDecodeError jmsg)"
  with assms show
    "ExecuteSqlTool_invoke lib tp = ([TextMessage (''Invalid tables JSON: '' @ jmsg)], None)"
    by (simp add: ExecuteSqlTool_invoke_def execute_try_def try_except_def)
next
  assume h: "truthy sql" "truthy tables_str" "json_loads lib tables_str = Inr v"
    "\<forall>d. v \<noteq> PDict d"
  from h(4) have "execute_try lib sql tables_str dialect =
      ([TextMessage ''Tables must be a JSON object with table names as keys.''], None)"
    using h(3) by (cases v) (simp_all add: execute_try_def)
  with assms h(1,2) show "ExecuteSqlTool_invoke lib tp
               = ([TextMessage ''Tables must be a JSON object with table names as keys.''],
                  None)"
    by (simp add: ExecuteSqlTool_invoke_def try_except_def)
next
  assume h: "truthy sql" "truthy tables_str"
    "json_loads lib tables_str = Inr (PDict (good @ (tbl_name, v) # rest))"
    "\<forall>kv \<in> set good. \<exists>rows. snd kv = PList (map PDict rows)"
    "\<forall>rows. v \<noteq> PList rows"
  with assms show "ExecuteSqlTool_invoke lib tp
               = ([TextMessage (''Table '' @ CHR 0x27 # tbl_name @ CHR 0x27
                                # '' must be an array of row objects.'')], None)"
    by (simp add: ExecuteSqlTool_invoke_def execute_try_def try_except_def
          check_tables_not_list[OF h(4,5)])
next
  assume h: "truthy sql" "truthy tables_str"
    "json_loads lib tables_str
               = Inr (PDict (good @ (tbl_name, PList (map PDict rows @ r # others)) # rest))"
    "\<forall>kv \<in> set good. \<exists>rows. snd kv = PList (map PDict rows)"
    "\<forall>d. r \<noteq> PDict d"
  with assms show "ExecuteSqlTool_invoke lib tp
               = ([TextMessage (''Each row in table '' @ CHR 0x27 # tbl_name @ CHR 0x27
                                # '' must be an object.'')], None)"
    by (simp add: ExecuteSqlTool_invoke_def execute_try_def try_except_def
          check_tables_not_dict[OF h(4,5)])
next
  assume h: "truthy sql" "truthy tables_str"
    "json_loads lib tables_str = Inr (PDict tables)"
    "\<forall>kv \<in> set tables. \<exists>rows. snd kv = PList (map PDict rows)"
    "execute lib sql (PDict tables) (parse_dialect_of dialect) = Inl e"
  with assms show "ExecuteSqlTool_invoke lib tp =
               ([TextMessage (''Query execution failed: '' @ exn_str e),
                 JsonMessage (PDict [(''success'', PBool False),
                                     (''error'', PStr (exn_str e)),
                                     (''original_sql'', sql)])], None)"
    by (simp add: ExecuteSqlTool_invoke_def execute_try_def execute_checked_def
          try_except_def check_tables_all_good[OF h(4)])
next
  assume "truthy sql" "truthy tables_str"
    "execute_try lib sql tables_str dialect = (ms, Some e)"
  with assms show "ExecuteSqlTool_invoke lib tp =
               (ms @ [TextMessage
                        (case e of ParseError msg errs \<Rightarrow> ''SQL Parse Error: '' @ msg
                         | JSONDecodeError msg \<Rightarrow> ''Error executing SQL: '' @ msg
                         | OtherError cls msg \<Rightarrow> ''Error executing SQL: '' @ msg),
                      JsonMessage (PDict [(''success'', PBool False),
                                          (''error_type'', PStr (exn_type_name e)),
                                          (''error_message'', PStr (exn_str e)),
                                          (''original_sql'', sql)])], None)"
    by (simp add: ExecuteSqlTool_invoke_def try_except_def handle_errors_answer)
qed

text \<open>
  Every case of the theorem at a concrete input. The stand-in library answers for the
  statement \<^verbatim>\<open>SELECT 1 )\<close>, which does not parse, with a \<^verbatim>\<open>tables\<close> parameter that is
  not a string; for missing parameters; for texts that are not JSON or not tables of
  rows; for an empty table, on which \<^verbatim>\<open>execute\<close> raises; and for the query \<^verbatim>\<open>;\<close>,
  which holds no statement. sqlglot itself never returns \<^verbatim>\<open>None\<close> from \<^verbatim>\<open>parse_one\<close>
  nor an empty list from \<^verbatim>\<open>parse\<close> or \<^verbatim>\<open>transpile\<close>: the three branches of the tools
  that test for it are shown with the stand-in library changed to return just that.
\<close>

theorem tools_never_raise_witness:
  "snd (AnalyzeSqlTool_invoke canned_lib
          [''sql'' \<mapsto> PStr ''SELECT 1 )'', ''target_dialect'' \<mapsto> PStr ''postgres'',
           ''tables'' \<mapsto> PInt 5]) = None
   \<and> truthy (PStr ''SELECT 1 )'') \<and> truthy (PStr ''postgres'') \<and> truthy (PInt 5)
   \<and> analyze_try canned_lib (PStr ''SELECT 1 )'') (PStr '''') = ([], Some canned_parse_error)
   \<and> AnalyzeSqlTool_invoke canned_lib
        [''sql'' \<mapsto> PStr ''SELECT 1 )'', ''target_dialect'' \<mapsto> PStr ''postgres'',
         ''tables'' \<mapsto> PInt 5]
      = ([TextMessage (''SQL Parse Error: '' @ exn_str canned_parse_error),
          JsonMessage (PDict [(''success'', PBool False),
                              (''error_type'', PStr ''ParseError''),
                              (''error_message'', PStr (exn_str canned_parse_error)),
                              (''original_sql'', PStr ''SELECT 1 )'')])], None)
   \<and> format_try canned_lib (PStr ''SELECT 1 )'') (PStr '''') (PBool False) (PBool False)
       = ([], Some canned_parse_error)
   \<and> FormatSqlTool_invoke canned_lib
        [''sql'' \<mapsto> PStr ''SELECT 1 )'', ''target_dialect'' \<mapsto> PStr ''postgres'',
         ''tables'' \<mapsto> PInt 5]
      = ([TextMessage (''SQL Parse Error: '' @ exn_str canned_parse_error),
          JsonMessage (PDict [(''success'', PBool False),
                              (''error_type'', PStr ''ParseError''),
                              (''error_message'', PStr (exn_str canned_parse_error)),
                              (''original_sql'', PStr ''SELECT 1 )'')])], None)
   \<and> transpile_try canned_lib (PStr ''SELECT 1 )'') (PStr '''') (PStr ''postgres'') (PBool True)
       = ([], Some canned_parse_error)
   \<and> TranspileSqlTool_invoke canned_lib
        [''sql'' \<mapsto> PStr ''SELECT 1 )'', ''target_dialect'' \<mapsto> PStr ''postgres'',
         ''tables'' \<mapsto> PInt 5]
      = ([TextMessage (''SQL Parse Error: '' @ exn_str canned_parse_error),
          JsonMessage (PDict [(''success'', PBool False),
                              (''error_type'', PStr ''ParseError''),
                              (''error_message'', PStr (exn_str canned_parse_error)),
                              (''original_sql'', PStr ''SELECT 1 )'')])], None)
   \<and> validate_try canned_lib (PStr ''SELECT 1 )'') (PStr '''') = ([], Some canned_parse_error)
   \<and> (\<exists>t d. ValidateSqlTool_invoke canned_lib
            [''sql'' \<mapsto> PStr ''SELECT 1 )'', ''target_dialect'' \<mapsto> PStr ''postgres'',
             ''tables'' \<mapsto> PInt 5]
          = ([TextMessage t, JsonMessage (PDict d)], None)
        \<and> map_of d ''valid'' = Some (PBool False)
        \<and> map_of d ''error_type'' = Some (PStr ''ParseError'')
        \<and> map_of d ''error_message'' = Some (PStr (exn_str canned_parse_error))
        \<and> map_of d ''original_sql'' = Some (PStr ''SELECT 1 )''))
   \<and> optimize_try canned_lib (PStr ''SELECT 1 )'') (PStr '''') (PStr '''')
       = ([], Some canned_parse_error)
   \<and> OptimizeSqlTool_invoke canned_lib
        [''sql'' \<mapsto> PStr ''SELECT 1 )'', ''target_dialect'' \<mapsto> PStr ''postgres'',
         ''tables'' \<mapsto> PInt 5]
      = ([TextMessage (''SQL Parse Error: '' @ exn_str canned_parse_error),
          JsonMessage (PDict [(''success'', PBool False),
                              (''error_type'', PStr ''ParseError''),
                              (''error_message'', PStr (exn_str canned_parse_error)),
                              (''original_sql'', PStr ''SELECT 1 )'')])], None)
   \<and> execute_try canned_lib (PStr ''SELECT 1 )'') (PInt 5) (PStr '''')
       = ([], Some (OtherError ''TypeError''
                     ''the JSON object must be str, bytes or bytearray, not int''))
   \<and> ExecuteSqlTool_invoke canned_lib
        [''sql'' \<mapsto> PStr ''SELECT 1 )'', ''target_dialect'' \<mapsto> PStr ''postgres'',
         ''tables'' \<mapsto> PInt 5]
      = ([TextMessage (''Error executing SQL: ''
                       @ ''the JSON object must be str, bytes or bytearray, not int''),
          JsonMessage
            (PDict [(''success'', PBool False),
                    (''error_type'', PStr ''TypeError''),
                    (''error_message'',
                       PStr ''the JSON object must be str, bytes or bytearray, not int''),
                    (''original_sql'', PStr ''SELECT 1 )'')])], None)
   \<and> \<not> truthy (get_param Map.empty ''sql'' (PStr ''''))
   \<and> AnalyzeSqlTool_invoke canned_lib Map.empty = ([TextMessage ''SQL query is required.''], None)
   \<and> FormatSqlTool_invoke canned_lib Map.empty = ([TextMessage ''SQL query is required.''], None)
   \<and> TranspileSqlTool_invoke canned_lib Map.empty
       = ([TextMessage ''SQL query is required.''], None)
   \<and> ValidateSqlTool_invoke canned_lib Map.empty
       = ([TextMessage ''SQL query is required.''], None)
   \<and> OptimizeSqlTool_invoke canned_lib Map.empty
       = ([TextMessage ''SQL query is required.''], None)
   \<and> ExecuteSqlTool_invoke canned_lib Map.empty = ([TextMessage ''SQL query is required.''], None)
   \<and> truthy (PStr ''SELECT 1'')
   \<and> \<not> truthy (get_param [''sql'' \<mapsto> PStr ''SELECT 1''] ''tables'' (PStr ''''))
   \<and> ExecuteSqlTool_invoke canned_lib [''sql'' \<mapsto> PStr ''SELECT 1'']
       = ([TextMessage ''Data tables are required.''], None)
   \<and> \<not> truthy (get_param [''sql'' \<mapsto> PStr ''SELECT 1''] ''target_dialect'' (PStr ''''))
   \<and> TranspileSqlTool_invoke canned_lib [''sql'' \<mapsto> PStr ''SELECT 1'']
       = ([TextMessage ''Target dialect is required.''], None)
   \<and> truthy (PStr ''not json'')
   \<and> json_loads canned_lib (PStr ''not json'')
       = Inl (JSONDecodeError ''Expecting value: line 1 column 1 (char 0)'')
   \<and> parse_one canned_lib (PStr ''SELECT 1'') (parse_dialect_of (PStr ''''))
       = Inr (Some select_one)
   \<and> OptimizeSqlTool_invoke canned_lib
        [''sql'' \<mapsto> PStr ''SELECT 1'', ''schema'' \<mapsto> PStr ''not json'',
         ''tables'' \<mapsto> PStr ''not json'']
      = ([TextMessage (''Invalid schema JSON: ''
                       @ ''Expecting value: line 1 column 1 (char 0)'')], None)
   \<and> ExecuteSqlTool_invoke canned_lib
        [''sql'' \<mapsto> PStr ''SELECT 1'', ''schema'' \<mapsto> PStr ''not json'',
         ''tables'' \<mapsto> PStr ''not json'']
      = ([TextMessage (''Invalid tables JSON: ''
                       @ ''Expecting value: line 1 column 1 (char 0)'')], None)
   \<and> truthy (PStr ''[1]'')
   \<and> json_loads canned_lib (PStr ''[1]'') = Inr (PList [PInt 1])
   \<and> ExecuteSqlTool_invoke canned_lib
        [''sql'' \<mapsto> PStr ''SELECT 1'', ''tables'' \<mapsto> PStr ''[1]'']
      = ([TextMessage ''Tables must be a JSON object with table names as keys.''], None)
   \<and> truthy (PStr scalar_table_json)
   \<and> json_loads canned_lib (PStr scalar_table_json) = Inr (PDict [(''t'', PInt 1)])
   \<and> ExecuteSqlTool_invoke canned_lib
        [''sql'' \<mapsto> PStr ''SELECT 1'', ''tables'' \<mapsto> PStr scalar_table_json]
      = ([TextMessage (''Table '' @ CHR 0x27 # ''t'' @ CHR 0x27
                       # '' must be an array of row objects.'')], None)
   \<and> truthy (PStr scalar_row_json)
   \<and> json_loads canned_lib (PStr scalar_row_json)
       = Inr (PDict [(''t'', PList [PInt 1])])
   \<and> ExecuteSqlTool_invoke canned_lib
        [''sql'' \<mapsto> PStr ''SELECT 1'', ''tables'' \<mapsto> PStr scalar_row_json]
      = ([TextMessage (''Each row in table '' @ CHR 0x27 # ''t'' @ CHR 0x27
                       # '' must be an object.'')], None)
   \<and> truthy (PStr empty_table_json)
   \<and> json_loads canned_lib (PStr empty_table_json) = Inr (PDict [(''t'', PList [])])
   \<and> execute canned_lib (PStr ''SELECT 1 )'') (PDict [(''t'', PList [])])
         (parse_dialect_of (PStr ''''))
       = Inl (OtherError ''ExecuteError''
                ''Tables must support the same table args as schema'')
   \<and> ExecuteSqlTool_invoke canned_lib
        [''sql'' \<mapsto> PStr ''SELECT 1 )'', ''tables'' \<mapsto> PStr empty_table_json]
      = ([TextMessage (''Query execution failed: ''
                       @ ''Tables must support the same table args as schema''),
          JsonMessage
            (PDict [(''success'', PBool False),
                    (''error'', PStr ''Tables must support the same table args as schema''),
                    (''original_sql'', PStr ''SELECT 1 )'')])], None)
   \<and> truthy (PStr '';'')
   \<and> parse canned_lib (PStr '';'') (parse_dialect_of (PStr '''')) = Inr [None]
   \<and> ValidateSqlTool_invoke canned_lib [''sql'' \<mapsto> PStr '';'']
      = ([TextMessage ''No valid SQL statements found in the query.'',
          JsonMessage (PDict [(''valid'', PBool False),
                              (''error'', PStr ''No valid SQL statements found''),
                              (''original_sql'', PStr '';'')])], None)
   \<and> FormatSqlTool_invoke canned_lib [''sql'' \<mapsto> PStr '';'']
      = ([TextMessage ''No valid SQL statements found.''], None)
   \<and> AnalyzeSqlTool_invoke (canned_lib\<lparr>parse_one := \<lambda>sql dialect. Inr None\<rparr>)
        [''sql'' \<mapsto> PStr ''SELECT 1'']
      = ([TextMessage ''Failed to parse SQL query.''], None)
   \<and> OptimizeSqlTool_invoke (canned_lib\<lparr>parse_one := \<lambda>sql dialect. Inr None\<rparr>)
        [''sql'' \<mapsto> PStr ''SELECT 1'']
      = ([TextMessage ''Failed to parse SQL query.''], None)
   \<and> FormatSqlTool_invoke (canned_lib\<lparr>parse := \<lambda>sql dialect. Inr []\<rparr>)
        [''sql'' \<mapsto> PStr ''SELECT 1'']
      = ([TextMessage ''Failed to parse SQL query.''], None)
   \<and> TranspileSqlTool_invoke (canned_lib\<lparr>transpile := \<lambda>sql read write pretty. Inr []\<rparr>)
        [''sql'' \<mapsto> PStr ''SELECT 1'', ''target_dialect'' \<mapsto> PStr ''postgres'']
      = ([TextMessage ''Failed to transpile SQL query.''], None)"
proof -
  let ?bad = "PStr ''SELECT 1 )''"
  let ?one = "PStr ''SELECT 1''"
  let ?semi = "PStr '';''"
  let ?no = "PStr ''''"
  let ?pg = "PStr ''postgres''"
  let ?nj = "PStr ''not json''"
  let ?te = "OtherError ''TypeError''
               ''the JSON object must be str, bytes or bytearray, not int''"
  let ?xe = "OtherError ''ExecuteError''
               ''Tables must support the same table args as schema''"
  let ?tp0 = "Map.empty :: params"
  let ?tp1 = "[''sql'' \<mapsto> ?bad, ''target_dialect'' \<mapsto> ?pg, ''tables'' \<mapsto> PInt 5]"
  let ?tp2 = "[''sql'' \<mapsto> ?one]"
  let ?tp3 = "[''sql'' \<mapsto> ?one, ''schema'' \<mapsto> ?nj, ''tables'' \<mapsto> ?nj]"
  let ?tp4 = "[''sql'' \<mapsto> ?one, ''tables'' \<mapsto> PStr ''[1]'']"
  let ?tp5 = "[''sql'' \<mapsto> ?one, ''tables'' \<mapsto> PStr scalar_table_json]"
  let ?tp6 = "[''sql'' \<mapsto> ?one, ''tables'' \<mapsto> PStr scalar_row_json]"
  let ?tp7 = "[''sql'' \<mapsto> ?bad, ''tables'' \<mapsto> PStr empty_table_json]"
  let ?tp8 = "[''sql'' \<mapsto> ?semi]"
  let ?tp9 = "[''sql'' \<mapsto> ?one, ''target_dialect'' \<mapsto> ?pg]"
  let ?none = "canned_lib\<lparr>parse_one := \<lambda>sql dialect. Inr None\<rparr>"
  let ?nolist = "canned_lib\<lparr>parse := \<lambda>sql dialect. Inr []\<rparr>"
  let ?notr = "canned_lib\<lparr>transpile := \<lambda>sql read write pretty. Inr []\<rparr>"
  have g0: "?no = get_param ?tp0 ''sql'' ?no" "?no = get_param ?tp0 ''dialect'' ?no"
    "?no = get_param ?tp0 ''target_dialect'' ?no" "?no = get_param ?tp0 ''schema'' ?no"
    "?no = get_param ?tp0 ''tables'' ?no"
    by (simp_all add: get_param_def)
  have g1: "?bad = get_param ?tp1 ''sql'' ?no" "?no = get_param ?tp1 ''dialect'' ?no"
    "?pg = get_param ?tp1 ''target_dialect'' ?no" "?no = get_param ?tp1 ''schema'' ?no"
    "PInt 5 = get_param ?tp1 ''tables'' ?no"
    by (simp_all add: get_param_def)
  have g2: "?one = get_param ?tp2 ''sql'' ?no" "?no = get_param ?tp2 ''dialect'' ?no"
    "?no = get_param ?tp2 ''target_dialect'' ?no" "?no = get_param ?tp2 ''schema'' ?no"
    "?no = get_param ?tp2 ''tables'' ?no"
    by (simp_all add: get_param_def)
  have g3: "?one = get_param ?tp3 ''sql'' ?no" "?no = get_param ?tp3 ''dialect'' ?no"
    "?no = get_param ?tp3 ''target_dialect'' ?no" "?nj = get_param ?tp3 ''schema'' ?no"
    "?nj = get_param ?tp3 ''tables'' ?no"
    by (simp_all add: get_param_def)
  have g4: "?one = get_param ?tp4 ''sql'' ?no" "?no = get_param ?tp4 ''dialect'' ?no"
    "?no = get_param ?tp4 ''target_dialect'' ?no" "?no = get_param ?tp4 ''schema'' ?no"
    "PStr ''[1]'' = get_param ?tp4 ''tables'' ?no"
    by (simp_all add: get_param_def)
  have g5: "?one = get_param ?tp5 ''sql'' ?no" "?no = get_param ?tp5 ''dialect'' ?no"
    "?no = get_param ?tp5 ''target_dialect'' ?no" "?no = get_param ?tp5 ''schema'' ?no"
    "PStr scalar_table_json = get_param ?tp5 ''tables'' ?no"
    by (simp_all add: get_param_def)
  have g6: "?one = get_param ?tp6 ''sql'' ?no" "?no = get_param ?tp6 ''dialect'' ?no"
    "?no = get_param ?tp6 ''target_dialect'' ?no" "?no = get_param ?tp6 ''schema'' ?no"
    "PStr scalar_row_json = get_param ?tp6 ''tables'' ?no"
    by (simp_all add: get_param_def)
  have g7: "?bad = get_param ?tp7 ''sql'' ?no" "?no = get_param ?tp7 ''dialect'' ?no"
    "?no = get_param ?tp7 ''target_dialect'' ?no" "?no = get_param ?tp7 ''schema'' ?no"
    "PStr empty_table_json = get_param ?tp7 ''tables'' ?no"
    by (simp_all add: get_param_def)
  have g8: "?semi = get_param ?tp8 ''sql'' ?no" "?no = get_param ?tp8 ''dialect'' ?no"
    "?no = get_param ?tp8 ''target_dialect'' ?no" "?no = get_param ?tp8 ''schema'' ?no"
    "?no = get_param ?tp8 ''tables'' ?no"
    by (simp_all add: get_param_def)
  have g9: "?one = get_param ?tp9 ''sql'' ?no" "?no = get_param ?tp9 ''dialect'' ?no"
    "?pg = get_param ?tp9 ''target_dialect'' ?no" "?no = get_param ?tp9 ''schema'' ?no"
    "?no = get_param ?tp9 ''tables'' ?no"
    by (simp_all add: get_param_def)
  have o1: "get_param ?tp1 ''identify'' (PBool False) = PBool False"
    "get_param ?tp1 ''normalize'' (PBool False) = PBool False"
    "get_param ?tp1 ''source_dialect'' ?no = ?no"
    "get_param ?tp1 ''pretty'' (PBool True) = PBool True"
    "get_param ?tp9 ''source_dialect'' ?no = ?no"
    "get_param ?tp9 ''pretty'' (PBool True) = PBool True"
    by (simp_all add: get_param_def)
  have tr: "truthy ?bad" "truthy ?one" "truthy ?semi" "truthy ?pg" "truthy (PInt 5)"
    "truthy ?nj" "truthy (PStr ''[1]'')" "truthy (PStr scalar_table_json)"
    "truthy (PStr scalar_row_json)" "truthy (PStr empty_table_json)" "\<not> truthy ?no"
    by (simp_all add: scalar_table_json_def scalar_row_json_def empty_table_json_def)
  have nt: "\<not> truthy (get_param ?tp0 ''sql'' ?no)" "\<not> truthy (get_param ?tp2 ''tables'' ?no)"
    "\<not> truthy (get_param ?tp2 ''target_dialect'' ?no)"
    by (simp_all add: get_param_def)
  have pd: "parse_dialect_of ?no = PNone" by (simp add: parse_dialect_of_def)
  have p: "parse_one canned_lib ?bad PNone = Inl canned_parse_error"
    "parse canned_lib ?bad PNone = Inl canned_parse_error"
    "transpile canned_lib ?bad PNone ?pg (PBool True) = Inl canned_parse_error"
    "parse_one canned_lib ?one PNone = Inr (Some select_one)"
    "parse canned_lib ?semi PNone = Inr [None]"
    by (simp_all add: canned_lib_def canned_parse_def canned_parse_one_def
          canned_transpile_def canned_statements_def unclosed_string_def)
  have j: "json_loads canned_lib (PInt 5) = Inl ?te"
    "json_loads canned_lib ?nj
       = Inl (JSONDecodeError ''Expecting value: line 1 column 1 (char 0)'')"
    "json_loads canned_lib (PStr ''[1]'') = Inr (PList [PInt 1])"
    "json_loads canned_lib (PStr scalar_table_json) = Inr (PDict [(''t'', PInt 1)])"
    "json_loads canned_lib (PStr scalar_row_json) = Inr (PDict [(''t'', PList [PInt 1])])"
    "json_loads canned_lib (PStr empty_table_json) = Inr (PDict [(''t'', PList [])])"
    by (simp_all add: canned_lib_def canned_json_loads_def tables_json_def
          empty_table_json_def scalar_table_json_def scalar_row_json_def)
  have x: "execute canned_lib ?bad (PDict [(''t'', PList [])]) (parse_dialect_of ?no) = Inl ?xe"
    by (simp add: canned_lib_def canned_execute_def)
  have a: "analyze_try canned_lib ?bad ?no = ([], Some canned_parse_error)"
    by (simp add: analyze_try_def pd p)
  have f: "format_try canned_lib ?bad ?no (PBool False) (PBool False)
             = ([], Some canned_parse_error)"
    by (simp add: format_try_def pd p)
  have t: "transpile_try canned_lib ?bad ?no ?pg (PBool True) = ([], Some canned_parse_error)"
    by (simp add: transpile_try_def pd p)
  have v: "validate_try canned_lib ?bad ?no = ([], Some canned_parse_error)"
    by (simp add: validate_try_def pd p)
  have opt: "optimize_try canned_lib ?bad ?no ?no = ([], Some canned_parse_error)"
    by (simp add: optimize_try_def pd p)
  have xt: "execute_try canned_lib ?bad (PInt 5) ?no = ([], Some ?te)"
    by (simp add: execute_try_def j)
  have pp: "parse_one canned_lib ?one (parse_dialect_of ?no) = Inr (Some select_one)"
    "parse canned_lib ?semi (parse_dialect_of ?no) = Inr [None]"
    by (simp_all add: pd p)
  note i0 = tools_never_raise[where tp = ?tp0 and lib = canned_lib, OF g0]
  note i1 = tools_never_raise[where tp = ?tp1 and lib = canned_lib, OF g1]
  note i2 = tools_never_raise[where tp = ?tp2 and lib = canned_lib, OF g2]
  note i3 = tools_never_raise[where tp = ?tp3 and lib = canned_lib, OF g3]
  note i4 = tools_never_raise[where tp = ?tp4 and lib = canned_lib, OF g4]
  note i5 = tools_never_raise[where tp = ?tp5 and lib = canned_lib, OF g5]
  note i6 = tools_never_raise[where tp = ?tp6 and lib = canned_lib, OF g6]
  note i7 = tools_never_raise[where tp = ?tp7 and lib = canned_lib, OF g7]
  note i8 = tools_never_raise[where tp = ?tp8 and lib = canned_lib, OF g8]
  note n2 = tools_never_raise[where tp = ?tp2 and lib = ?none, OF g2]
  note l2 = tools_never_raise[where tp = ?tp2 and lib = ?nolist, OF g2]
  note t9 = tools_never_raise[where tp = ?tp9 and lib = ?notr, OF g9]
  have r1: "snd (AnalyzeSqlTool_invoke canned_lib ?tp1) = None"
    by (rule i1[THEN conjunct1])
  have r13: "AnalyzeSqlTool_invoke canned_lib ?tp0 = ([TextMessage ''SQL query is required.''], None)
     \<and> FormatSqlTool_invoke canned_lib ?tp0 = ([TextMessage ''SQL query is required.''], None)
     \<and> TranspileSqlTool_invoke canned_lib ?tp0 = ([TextMessage ''SQL query is required.''], None)
     \<and> ValidateSqlTool_invoke canned_lib ?tp0 = ([TextMessage ''SQL query is required.''], None)
     \<and> OptimizeSqlTool_invoke canned_lib ?tp0 = ([TextMessage ''SQL query is required.''], None)
     \<and> ExecuteSqlTool_invoke canned_lib ?tp0 = ([TextMessage ''SQL query is required.''], None)"
    by (rule i0[THEN conjunct2, THEN conjunct2, THEN conjunct2, THEN conjunct2, THEN conjunct2, THEN conjunct2, THEN conjunct2, THEN conjunct2, THEN conjunct2, THEN conjunct2, THEN conjunct2, THEN conjunct2, THEN conjunct1, rule_format, OF tr(11)])
  have r14: "ExecuteSqlTool_invoke canned_lib ?tp2 = ([TextMessage ''Data tables are required.''], None)"
    by (rule i2[THEN conjunct2, THEN conjunct2, THEN conjunct2, THEN conjunct2, THEN conjunct2, THEN conjunct2, THEN conjunct2, THEN conjunct2, THEN conjunct2, THEN conjunct2, THEN conjunct2, THEN conjunct2, THEN conjunct2, THEN conjunct1, rule_format, OF conjI[OF tr(2) tr(11)]])
  have r15: "TranspileSqlTool_invoke canned_lib ?tp2
               = ([TextMessage ''Target dialect is required.''], None)"
    by (rule i2[THEN conjunct2, THEN conjunct2, THEN conjunct2, THEN conjunct2, THEN conjunct2, THEN conjunct2, THEN conjunct2, THEN conjunct2, THEN conjunct2, THEN conjunct2, THEN conjunct2, THEN conjunct2, THEN conjunct2, THEN conjunct2, THEN conjunct1, rule_format, OF conjI[OF tr(2) tr(11)]])
  have h16: "truthy ?one \<and> parse_one ?none ?one (parse_dialect_of ?no) = Inr None"
    by simp
  have r16: "AnalyzeSqlTool_invoke ?none ?tp2 = ([TextMessage ''Failed to parse SQL query.''], None)"
    by (rule n2[THEN conjunct2, THEN conjunct2, THEN conjunct2, THEN conjunct2, THEN conjunct2, THEN conjunct2, THEN conjunct2, THEN conjunct2, THEN conjunct2, THEN conjunct2, THEN conjunct2, THEN conjunct2, THEN conjunct2, THEN conjunct2, THEN conjunct2, THEN conjunct1, rule_format, OF h16])
  have r17: "AnalyzeSqlTool_invoke canned_lib ?tp1
      = ([TextMessage (''SQL Parse Error: '' @ exn_str canned_parse_error),
          JsonMessage (PDict [(''success'', PBool False),
                              (''error_type'', PStr ''ParseError''),
                              (''error_message'', PStr (exn_str canned_parse_error)),
                              (''original_sql'', ?bad)])], None)"
    using i1[THEN conjunct2, THEN conjunct2, THEN conjunct2, THEN conjunct2, THEN conjunct2, THEN conjunct2, THEN conjunct2, THEN conjunct2, THEN conjunct2, THEN conjunct2, THEN conjunct2, THEN conjunct2, THEN conjunct2, THEN conjunct2, THEN conjunct2, THEN conjunct2, THEN conjunct1, rule_format, OF conjI[OF tr(1) a]] by (simp add: canned_parse_error_def)
  have h18: "truthy ?one \<and> parse ?nolist ?one (parse_dialect_of ?no) = Inr []"
    by simp
  have r18: "FormatSqlTool_invoke ?nolist ?tp2 = ([TextMessage ''Failed to parse SQL query.''], None)"
    by (rule l2[THEN conjunct2, THEN conjunct2, THEN conjunct2, THEN conjunct2, THEN conjunct2, THEN conjunct2, THEN conjunct2, THEN conjunct2, THEN conjunct2, THEN conjunct2, THEN conjunct2, THEN conjunct2, THEN conjunct2, THEN conjunct2, THEN conjunct2, THEN conjunct2, THEN conjunct2, THEN conjunct1, rule_format, OF h18])
  have h19: "truthy ?semi \<and> parse canned_lib ?semi (parse_dialect_of ?no) = Inr [None]
               \<and> [None :: expression option] \<noteq> [] \<and> set [None :: expression option] \<subseteq> {None}"
    by (simp add: pd p)
  have r19: "FormatSqlTool_invoke canned_lib ?tp8
               = ([TextMessage ''No valid SQL statements found.''], None)"
    by (rule i8[THEN conjunct2, THEN conjunct2, THEN conjunct2, THEN conjunct2, THEN conjunct2, THEN conjunct2, THEN conjunct2, THEN conjunct2, THEN conjunct2, THEN conjunct2, THEN conjunct2, THEN conjunct2, THEN conjunct2, THEN conjunct2, THEN conjunct2, THEN conjunct2, THEN conjunct2, THEN conjunct2, THEN conjunct1, rule_format, OF h19])
  have h20: "truthy ?bad \<and> format_try canned_lib ?bad ?no (get_param ?tp1 ''identify'' (PBool False))
               (get_param ?tp1 ''normalize'' (PBool False)) = ([], Some canned_parse_error)"
    by (simp add: o1 f)
  have r20: "FormatSqlTool_invoke canned_lib ?tp1
      = ([TextMessage (''SQL Parse Error: '' @ exn_str canned_parse_error),
          JsonMessage (PDict [(''success'', PBool False),
                              (''error_type'', PStr ''ParseError''),
                              (''error_message'', PStr (exn_str canned_parse_error)),
                              (''original_sql'', ?bad)])], None)"
    using i1[THEN conjunct2, THEN conjunct2, THEN conjunct2, THEN conjunct2, THEN conjunct2, THEN conjunct2, THEN conjunct2, THEN conjunct2, THEN conjunct2, THEN conjunct2, THEN conjunct2, THEN conjunct2, THEN conjunct2, THEN conjunct2, THEN conjunct2, THEN conjunct2, THEN conjunct2, THEN conjunct2, THEN conjunct2, THEN conjunct1, rule_format, OF h20] by (simp add: canned_parse_error_def)
  have h21: "truthy ?one \<and> truthy ?pg
               \<and> transpile ?notr ?one (parse_dialect_of (get_param ?tp9 ''source_dialect'' ?no))
                   ?pg (get_param ?tp9 ''pretty'' (PBool True)) = Inr []"
    by simp
  have r21: "TranspileSqlTool_invoke ?notr ?tp9
               = ([TextMessage ''Failed to transpile SQL query.''], None)"
    by (rule t9[THEN conjunct2, THEN conjunct2, THEN conjunct2, THEN conjunct2, THEN conjunct2, THEN conjunct2, THEN conjunct2, THEN conjunct2, THEN conjunct2, THEN conjunct2, THEN conjunct2, THEN conjunct2, THEN conjunct2, THEN conjunct2, THEN conjunct2, THEN conjunct2, THEN conjunct2, THEN conjunct2, THEN conjunct2, THEN conjunct2, THEN conjunct1, rule_format, OF h21])
  have h22: "truthy ?bad \<and> truthy ?pg
               \<and> transpile_try canned_lib ?bad (get_param ?tp1 ''source_dialect'' ?no) ?pg
                   (get_param ?tp1 ''pretty'' (PBool True)) = ([], Some canned_parse_error)"
    by (simp add: o1 t)
  have r22: "TranspileSqlTool_invoke canned_lib ?tp1
      = ([TextMessage (''SQL Parse Error: '' @ exn_str canned_parse_error),
          JsonMessage (PDict [(''success'', PBool False),
                              (''error_type'', PStr ''ParseError''),
                              (''error_message'', PStr (exn_str canned_parse_error)),
                              (''original_sql'', ?bad)])], None)"
    using i1[THEN conjunct2, THEN conjunct2, THEN conjunct2, THEN conjunct2, THEN conjunct2, THEN conjunct2, THEN conjunct2, THEN conjunct2, THEN conjunct2, THEN conjunct2, THEN conjunct2, THEN conjunct2, THEN conjunct2, THEN conjunct2, THEN conjunct2, THEN conjunct2, THEN conjunct2, THEN conjunct2, THEN conjunct2, THEN conjunct2, THEN conjunct2, THEN conjunct1, rule_format, OF h22] by (simp add: canned_parse_error_def)
  have h23: "truthy ?semi \<and> parse canned_lib ?semi (parse_dialect_of ?no) = Inr [None]
               \<and> set [None :: expression option] \<subseteq> {None}"
    by (simp add: pd p)
  have r23: "ValidateSqlTool_invoke canned_lib ?tp8
      = ([TextMessage ''No valid SQL statements found in the query.'',
          JsonMessage (PDict [(''valid'', PBool False),
                              (''error'', PStr ''No valid SQL statements found''),
                              (''original_sql'', ?semi)])], None)"
    by (rule i8[THEN conjunct2, THEN conjunct2, THEN conjunct2, THEN conjunct2, THEN conjunct2, THEN conjunct2, THEN conjunct2, THEN conjunct2, THEN conjunct2, THEN conjunct2, THEN conjunct2, THEN conjunct2, THEN conjunct2, THEN conjunct2, THEN conjunct2, THEN conjunct2, THEN conjunct2, THEN conjunct2, THEN conjunct2, THEN conjunct2, THEN conjunct2, THEN conjunct2, THEN conjunct1, rule_format, OF h23])
  have r24: "\<exists>t d. ValidateSqlTool_invoke canned_lib ?tp1
          = ([TextMessage t, JsonMessage (PDict d)], None)
        \<and> map_of d ''valid'' = Some (PBool False)
        \<and> map_of d ''error_type'' = Some (PStr ''ParseError'')
        \<and> map_of d ''error_message'' = Some (PStr (exn_str canned_parse_error))
        \<and> map_of d ''original_sql'' = Some ?bad"
    using i1[THEN conjunct2, THEN conjunct2, THEN conjunct2, THEN conjunct2, THEN conjunct2, THEN conjunct2, THEN conjunct2, THEN conjunct2, THEN conjunct2, THEN conjunct2, THEN conjunct2, THEN conjunct2, THEN conjunct2, THEN conjunct2, THEN conjunct2, THEN conjunct2, THEN conjunct2, THEN conjunct2, THEN conjunct2, THEN conjunct2, THEN conjunct2, THEN conjunct2, THEN conjunct2, THEN conjunct1, rule_format, OF conjI[OF tr(1) v]] by (simp add: canned_parse_error_def)
  have h25: "truthy ?one \<and> parse_one ?none ?one (parse_dialect_of ?no) = Inr None"
    by simp
  have r25: "OptimizeSqlTool_invoke ?none ?tp2 = ([TextMessage ''Failed to parse SQL query.''], None)"
    by (rule n2[THEN conjunct2, THEN conjunct2, THEN conjunct2, THEN conjunct2, THEN conjunct2, THEN conjunct2, THEN conjunct2, THEN conjunct2, THEN conjunct2, THEN conjunct2, THEN conjunct2, THEN conjunct2, THEN conjunct2, THEN conjunct2, THEN conjunct2, THEN conjunct2, THEN conjunct2, THEN conjunct2, THEN conjunct2, THEN conjunct2, THEN conjunct2, THEN conjunct2, THEN conjunct2, THEN conjunct2, THEN conjunct1, rule_format, OF h25])
  have h26: "truthy ?one \<and> parse_one canned_lib ?one (parse_dialect_of ?no) = Inr (Some select_one)
               \<and> truthy ?nj
               \<and> json_loads canned_lib ?nj
                   = Inl (JSONDecodeError ''Expecting value: line 1 column 1 (char 0)'')"
    by (simp add: pd p j)
  have r26: "OptimizeSqlTool_invoke canned_lib ?tp3
      = ([TextMessage (''Invalid schema JSON: ''
                       @ ''Expecting value: line 1 column 1 (char 0)'')], None)"
    by (rule i3[THEN conjunct2, THEN conjunct2, THEN conjunct2, THEN conjunct2, THEN conjunct2, THEN conjunct2, THEN conjunct2, THEN conjunct2, THEN conjunct2, THEN conjunct2, THEN conjunct2, THEN conjunct2, THEN conjunct2, THEN conjunct2, THEN conjunct2, THEN conjunct2, THEN conjunct2, THEN conjunct2, THEN conjunct2, THEN conjunct2, THEN conjunct2, THEN conjunct2, THEN conjunct2, THEN conjunct2, THEN conjunct2, THEN conjunct1, rule_format, OF h26])
  have r27: "OptimizeSqlTool_invoke canned_lib ?tp1
      = ([TextMessage (''SQL Parse Error: '' @ exn_str canned_parse_error),
          JsonMessage (PDict [(''success'', PBool False),
                              (''error_type'', PStr ''ParseError''),
                              (''error_message'', PStr (exn_str canned_parse_error)),
                              (''original_sql'', ?bad)])], None)"
    using i1[THEN conjunct2, THEN conjunct2, THEN conjunct2, THEN conjunct2, THEN conjunct2, THEN conjunct2, THEN conjunct2, THEN conjunct2, THEN conjunct2, THEN conjunct2, THEN conjunct2, THEN conjunct2, THEN conjunct2, THEN conjunct2, THEN conjunct2, THEN conjunct2, THEN conjunct2, THEN conjunct2, THEN conjunct2, THEN conjunct2, THEN conjunct2, THEN conjunct2, THEN conjunct2, THEN conjunct2, THEN conjunct2, THEN conjunct2, THEN conjunct1, rule_format, OF conjI[OF tr(1) opt]] by (simp add: canned_parse_error_def)
  have h28: "truthy ?one \<and> truthy ?nj
               \<and> json_loads canned_lib ?nj
                   = Inl (JSONDecodeError ''Expecting value: line 1 column 1 (char 0)'')"
    by (simp add: j)
  have r28: "ExecuteSqlTool_invoke canned_lib ?tp3
      = ([TextMessage (''Invalid tables JSON: ''
                       @ ''Expecting value: line 1 column 1 (char 0)'')], None)"
    by (rule i3[THEN conjunct2, THEN conjunct2, THEN conjunct2, THEN conjunct2, THEN conjunct2, THEN conjunct2, THEN conjunct2, THEN conjunct2, THEN conjunct2, THEN conjunct2, THEN conjunct2, THEN conjunct2, THEN conjunct2, THEN conjunct2, THEN conjunct2, THEN conjunct2, THEN conjunct2, THEN conjunct2, THEN conjunct2, THEN conjunct2, THEN conjunct2, THEN conjunct2, THEN conjunct2, THEN conjunct2, THEN conjunct2, THEN conjunct2, THEN conjunct2, THEN conjunct1, rule_format, OF h28])
  have h29: "truthy ?one \<and> truthy (PStr ''[1]'')
               \<and> json_loads canned_lib (PStr ''[1]'') = Inr (PList [PInt 1])
               \<and> (\<forall>d. PList [PInt 1] \<noteq> PDict d)"
    by (simp add: j)
  have r29: "ExecuteSqlTool_invoke canned_lib ?tp4
      = ([TextMessage ''Tables must be a JSON object with table names as keys.''], None)"
    by (rule i4[THEN conjunct2, THEN conjunct2, THEN conjunct2, THEN conjunct2, THEN conjunct2, THEN conjunct2, THEN conjunct2, THEN conjunct2, THEN conjunct2, THEN conjunct2, THEN conjunct2, THEN conjunct2, THEN conjunct2, THEN conjunct2, THEN conjunct2, THEN conjunct2, THEN conjunct2, THEN conjunct2, THEN conjunct2, THEN conjunct2, THEN conjunct2, THEN conjunct2, THEN conjunct2, THEN conjunct2, THEN conjunct2, THEN conjunct2, THEN conjunct2, THEN conjunct2, THEN conjunct1, rule_format, OF h29])
  have h30: "truthy ?one \<and> truthy (PStr scalar_table_json)
               \<and> json_loads canned_lib (PStr scalar_table_json)
                   = Inr (PDict ([] @ (''t'', PInt 1) # []))
               \<and> (\<forall>kv \<in> set ([] :: (string \<times> pyval) list).
                     \<exists>rows. snd kv = PList (map PDict rows))
               \<and> (\<forall>rows. PInt 1 \<noteq> PList rows)"
    using tr j(4) by simp
  have r30: "ExecuteSqlTool_invoke canned_lib ?tp5
      = ([TextMessage (''Table '' @ CHR 0x27 # ''t'' @ CHR 0x27
                       # '' must be an array of row objects.'')], None)"
    by (rule i5[THEN conjunct2, THEN conjunct2, THEN conjunct2, THEN conjunct2, THEN conjunct2, THEN conjunct2, THEN conjunct2, THEN conjunct2, THEN conjunct2, THEN conjunct2, THEN conjunct2, THEN conjunct2, THEN conjunct2, THEN conjunct2, THEN conjunct2, THEN conjunct2, THEN conjunct2, THEN conjunct2, THEN conjunct2, THEN conjunct2, THEN conjunct2, THEN conjunct2, THEN conjunct2, THEN conjunct2, THEN conjunct2, THEN conjunct2, THEN conjunct2, THEN conjunct2, THEN conjunct2, THEN conjunct1, rule_format, OF h30])
  have h31: "truthy ?one \<and> truthy (PStr scalar_row_json)
               \<and> json_loads canned_lib (PStr scalar_row_json)
                   = Inr (PDict ([] @ (''t'', PList (map PDict [] @ PInt 1 # [])) # []))
               \<and> (\<forall>kv \<in> set ([] :: (string \<times> pyval) list).
                     \<exists>rows. snd kv = PList (map PDict rows))
               \<and> (\<forall>d. PInt 1 \<noteq> PDict d)"
    using tr j(5) by simp
  have r31: "ExecuteSqlTool_invoke canned_lib ?tp6
      = ([TextMessage (''Each row in table '' @ CHR 0x27 # ''t'' @ CHR 0x27
                       # '' must be an object.'')], None)"
    by (rule i6[THEN conjunct2, THEN conjunct2, THEN conjunct2, THEN conjunct2, THEN conjunct2, THEN conjunct2, THEN conjunct2, THEN conjunct2, THEN conjunct2, THEN conjunct2, THEN conjunct2, THEN conjunct2, THEN conjunct2, THEN conjunct2, THEN conjunct2, THEN conjunct2, THEN conjunct2, THEN conjunct2, THEN conjunct2, THEN conjunct2, THEN conjunct2, THEN conjunct2, THEN conjunct2, THEN conjunct2, THEN conjunct2, THEN conjunct2, THEN conjunct2, THEN conjunct2, THEN conjunct2, THEN conjunct2, THEN conjunct1, rule_format, OF h31])
  have h32: "truthy ?bad \<and> truthy (PStr empty_table_json)
               \<and> json_loads canned_lib (PStr empty_table_json) = Inr (PDict [(''t'', PList [])])
               \<and> (\<forall>kv \<in> set [(''t'', PList [])]. \<exists>rows. snd kv = PList (map PDict rows))
               \<and> execute canned_lib ?bad (PDict [(''t'', PList [])]) (parse_dialect_of ?no)
                   = Inl ?xe"
    using tr j(6) x by simp
  have r32: "ExecuteSqlTool_invoke canned_lib ?tp7
      = ([TextMessage (''Query execution failed: ''
                       @ ''Tables must support the same table args as schema''),
          JsonMessage
            (PDict [(''success'', PBool False),
                    (''error'', PStr ''Tables must support the same table args as schema''),
                    (''original_sql'', ?bad)])], None)"
    using i7[THEN conjunct2, THEN conjunct2, THEN conjunct2, THEN conjunct2, THEN conjunct2, THEN conjunct2, THEN conjunct2, THEN conjunct2, THEN conjunct2, THEN conjunct2, THEN conjunct2, THEN conjunct2, THEN conjunct2, THEN conjunct2, THEN conjunct2, THEN conjunct2, THEN conjunct2, THEN conjunct2, THEN conjunct2, THEN conjunct2, THEN conjunct2, THEN conjunct2, THEN conjunct2, THEN conjunct2, THEN conjunct2, THEN conjunct2, THEN conjunct2, THEN conjunct2, THEN conjunct2, THEN conjunct2, THEN conjunct2, THEN conjunct1, rule_format, OF h32] by simp
  have r33: "ExecuteSqlTool_invoke canned_lib ?tp1
      = ([TextMessage (''Error executing SQL: ''
                       @ ''the JSON object must be str, bytes or bytearray, not int''),
          JsonMessage
            (PDict [(''success'', PBool False),
                    (''error_type'', PStr ''TypeError''),
                    (''error_message'',
                       PStr ''the JSON object must be str, bytes or bytearray, not int''),
                    (''original_sql'', ?bad)])], None)"
    using i1[THEN conjunct2, THEN conjunct2, THEN conjunct2, THEN conjunct2, THEN conjunct2, THEN conjunct2, THEN conjunct2, THEN conjunct2, THEN conjunct2, THEN conjunct2, THEN conjunct2, THEN conjunct2, THEN conjunct2, THEN conjunct2, THEN conjunct2, THEN conjunct2, THEN conjunct2, THEN conjunct2, THEN conjunct2, THEN conjunct2, THEN conjunct2, THEN conjunct2, THEN conjunct2, THEN conjunct2, THEN conjunct2, THEN conjunct2, THEN conjunct2, THEN conjunct2, THEN conjunct2, THEN conjunct2, THEN conjunct2, THEN conjunct2, rule_format, OF conjI[OF tr(1) conjI[OF tr(5) xt]]] by simp
  from r1 tr(1,4,5) a r17 f r20 t r22 v r24 opt r27 xt r33
    nt(1) r13[THEN conjunct1] r13[THEN conjunct2, THEN conjunct1]
    r13[THEN conjunct2, THEN conjunct2, THEN conjunct1]
    r13[THEN conjunct2, THEN conjunct2, THEN conjunct2, THEN conjunct1]
    r13[THEN conjunct2, THEN conjunct2, THEN conjunct2, THEN conjunct2, THEN conjunct1]
    r13[THEN conjunct2, THEN conjunct2, THEN conjunct2, THEN conjunct2, THEN conjunct2]
    tr(2) nt(2) r14 nt(3) r15
    tr(6) j(2) pp(1) r26 r28
    tr(7) j(3) r29 tr(8) j(4) r30 tr(9) j(5) r31
    tr(10) j(6) x r32
    tr(3) pp(2) r23 r19 r16 r25 r18 r21
  show ?thesis by (intro conjI)
qed

text \<open>
  Claim C1 as stated fails where the executor raises. A table without rows makes
  \<^verbatim>\<open>execute\<close> raise an \<^verbatim>\<open>ExecuteError\<close>, and ExecuteSqlTool answers with a payload that
  has neither \<^verbatim>\<open>error_type\<close> nor \<^verbatim>\<open>error_message\<close>.
\<close>

theorem execute_failure_counterexample:
  "ExecuteSqlTool_invoke canned_lib
     [''sql'' \<mapsto> PStr ''SELECT ('', ''tables'' \<mapsto> PStr empty_table_json]
     = ([TextMessage
           ''Query execution failed: Tables must support the same table args as schema'',
         JsonMessage
           (PDict [(''success'', PBool False),
                   (''error'', PStr ''Tables must support the same table args as schema''),
                   (''original_sql'', PStr ''SELECT ('')])], None)
   \<and> map_of [(''success'', PBool False),
              (''error'', PStr ''Tables must support the same table args as schema''),
              (''original_sql'', PStr ''SELECT ('')] ''error_type'' = None
   \<and> map_of [(''success'', PBool False),
              (''error'', PStr ''Tables must support the same table args as schema''),
              (''original_sql'', PStr ''SELECT ('')] ''error_message'' = None"
  by (simp add: ExecuteSqlTool_invoke_def get_param_def try_except_def execute_try_def
        execute_checked_def canned_lib_def canned_json_loads_def canned_execute_def
        parse_dialect_of_def empty_table_json_def tables_json_def)

section \<open>Optimization\<close>

lemma optimize_invoke_parsed:
  assumes "get_param tp ''sql'' (PStr '''') = sql" and "truthy sql"
    and "get_param tp ''dialect'' (PStr '''') = dialect"
    and "parse_one lib sql (parse_dialect_of dialect) = Inr (Some parsed)"
    and "load_schema lib (get_param tp ''schema'' (PStr '''')) = Inr schema"
    and "optimize_parsed lib parsed sql dialect schema = (ms, None)"
  shows "OptimizeSqlTool_invoke lib tp = (ms, None)"
  using assms
  by (simp add: OptimizeSqlTool_invoke_def optimize_try_def try_except_def)

lemma optimize_parsed_kept:
  assumes "(if truthy schema then optimize lib parsed (Some schema) (parse_dialect_of dialect)
            else optimize lib parsed None (parse_dialect_of dialect)) = Inl e"
    and "expr_sql lib parsed [(''dialect'', parse_dialect_of dialect), (''pretty'', PBool True)]
           = Inr body"
  shows "optimize_parsed lib parsed sql dialect schema =
     ([TextMessage (''Successfully optimized SQL query'' @ ''\<newline>'' @ optimization_note_of e),
       TextMessage (sql_block ''Optimized SQL'' body),
       JsonMessage (PDict [(''original_sql'', sql),
                           (''optimized_sql'', PStr body),
                           (''dialect'', dialect_label dialect),
                           (''schema_provided'', PBool (truthy schema)),
                           (''optimization_applied'', PBool True),
                           (''note'', PStr (optimization_note_of e))])], None)"
  using assms
  by (simp add: optimize_parsed_def optimize_or_keep_def Let_def split: if_splits)


text \<open>
  Claim C3. When the call of \<^verbatim>\<open>optimize\<close> that the tool makes raises, the tool answers
  with a success response and not with an error: the parsed expression is kept as it
  is, and \<^verbatim>\<open>optimized_sql\<close> is the rendering of that parsed expression. (In the model an
  expression is a value: that \<^verbatim>\<open>optimize\<close> works on a copy and leaves its argument
  alone is sqlglot's.)
\<close>

theorem optimize_failure_keeps_parsed:
  assumes "get_param tp ''sql'' (PStr '''') = sql" and "truthy sql"
    and "get_param tp ''dialect'' (PStr '''') = dialect"
    and "parse_one lib sql (parse_dialect_of dialect) = Inr (Some parsed)"
    and "load_schema lib (get_param tp ''schema'' (PStr '''')) = Inr schema"
    and "(if truthy schema then optimize lib parsed (Some schema) (parse_dialect_of dialect)
          else optimize lib parsed None (parse_dialect_of dialect)) = Inl e"
    and "expr_sql lib parsed [(''dialect'', parse_dialect_of dialect), (''pretty'', PBool True)]
           = Inr body"
  shows "OptimizeSqlTool_invoke lib tp =
     ([TextMessage (''Successfully optimized SQL query'' @ ''\<newline>'' @ optimization_note_of e),
       TextMessage (sql_block ''Optimized SQL'' body),
       JsonMessage (PDict [(''original_sql'', sql),
                           (''optimized_sql'', PStr body),
                           (''dialect'', dialect_label dialect),
                           (''schema_provided'', PBool (truthy schema)),
                           (''optimization_applied'', PBool True),
                           (''note'', PStr (optimization_note_of e))])], None)"
  using optimize_invoke_parsed[OF assms(1-5) optimize_parsed_kept[OF assms(6,7)]] .

lemma canned_unresolved:
  "get_param [''sql'' \<mapsto> PStr ''SELECT x FROM a JOIN b ON a.id = b.id''] ''sql'' (PStr '''')
     = PStr ''SELECT x FROM a JOIN b ON a.id = b.id''"
  "get_param [''sql'' \<mapsto> PStr ''SELECT x FROM a JOIN b ON a.id = b.id''] ''dialect'' (PStr '''')
     = PStr ''''"
  "parse_one canned_lib (PStr ''SELECT x FROM a JOIN b ON a.id = b.id'')
     (parse_dialect_of (PStr '''')) = Inr (Some select_unresolved)"
  "load_schema canned_lib
     (get_param [''sql'' \<mapsto> PStr ''SELECT x FROM a JOIN b ON a.id = b.id''] ''schema'' (PStr ''''))
     = Inr PNone"
  "optimize canned_lib select_unresolved None (parse_dialect_of (PStr ''''))
     = Inl (OtherError ''OptimizeError'' ''Column x could not be resolved'')"
  "expr_sql canned_lib select_unresolved
     [(''dialect'', parse_dialect_of (PStr '''')), (''pretty'', PBool True)]
     = Inr (pretty_sql select_unresolved)"
  by (simp_all add: get_param_def canned_lib_def canned_parse_one_def canned_parse_def
        unclosed_string_def canned_statements_def
        parse_dialect_of_def load_schema_def canned_optimize_def select_unresolved_def
        select_one_def)

text \<open>The stand-in library on a statement whose optimization raises.\<close>

theorem optimize_failure_keeps_parsed_witness:
  "OptimizeSqlTool_invoke canned_lib [''sql'' \<mapsto> PStr ''SELECT x FROM a JOIN b ON a.id = b.id''] =
     ([TextMessage (''Successfully optimized SQL query'' @ ''\<newline>''
          @ optimization_note_of (OtherError ''OptimizeError'' ''Column x could not be resolved'')),
       TextMessage (sql_block ''Optimized SQL'' (pretty_sql select_unresolved)),
       JsonMessage (PDict [(''original_sql'', PStr ''SELECT x FROM a JOIN b ON a.id = b.id''),
                           (''optimized_sql'', PStr (pretty_sql select_unresolved)),
                           (''dialect'', PStr ''auto-detected''),
                           (''schema_provided'', PBool False),
                           (''optimization_applied'', PBool True),
                           (''note'', PStr (optimization_note_of
                              (OtherError ''OptimizeError'' ''Column x could not be resolved'')))])],
      None)"
  using optimize_failure_keeps_parsed[
      of "[''sql'' \<mapsto> PStr ''SELECT x FROM a JOIN b ON a.id = b.id'']"
         "PStr ''SELECT x FROM a JOIN b ON a.id = b.id''" "PStr ''''" canned_lib
         select_unresolved PNone
         "OtherError ''OptimizeError'' ''Column x could not be resolved''"
         "pretty_sql select_unresolved"]
    canned_unresolved
  by (simp add: dialect_label_def)





section \<open>Validation\<close>





section \<open>The dialect selector\<close>

lemma empty_or_absent:
  "tp key = None \<or> tp key = Some (PStr '''') \<Longrightarrow> get_param tp key (PStr '''') = PStr ''''"
  by (auto simp add: get_param_def)

lemma analyze_auto:
  assumes "get_param tp ''sql'' (PStr '''') = sql" and "truthy sql"
    and "get_param tp ''dialect'' (PStr '''') = PStr ''''"
    and "parse_one lib sql PNone = Inr (Some parsed)"
    and "analyze_parsed lib parsed sql (PStr '''') = Inr (summary, response)"
  shows "AnalyzeSqlTool_invoke lib tp = ([TextMessage summary, JsonMessage response], None)
         \<and> (\<exists>d. response = PDict d \<and> map_of d ''dialect'' = Some (PStr ''auto-detected''))"
proof -
  have "AnalyzeSqlTool_invoke lib tp = ([TextMessage summary, JsonMessage response], None)"
    using assms
    by (simp add: AnalyzeSqlTool_invoke_def analyze_try_def try_except_def parse_dialect_of_def)
  moreover from analyze_parsed_Inr[OF assms(5)]
  have "\<exists>d. response = PDict d \<and> map_of d ''dialect'' = Some (PStr ''auto-detected'')"
    by (auto simp add: dialect_label_def)
  ultimately show ?thesis by simp
qed

lemma validate_auto:
  assumes "get_param tp ''sql'' (PStr '''') = sql" and "truthy sql"
    and "get_param tp ''dialect'' (PStr '''') = PStr ''''"
    and "parse lib sql PNone = Inr stmts"
    and "valid_statements_of stmts \<noteq> []"
    and "statement_infos lib 0 [] (valid_statements_of stmts) = Inr infos"
  shows "\<exists>t1 t2 d. ValidateSqlTool_invoke lib tp =
            ([TextMessage t1, TextMessage t2, JsonMessage (PDict d)], None)
         \<and> map_of d ''valid'' = Some (PBool True)
         \<and> map_of d ''dialect'' = Some (PStr ''auto-detected'')"
  using assms
  by (simp add: ValidateSqlTool_invoke_def validate_try_def try_except_def parse_dialect_of_def Let_def
        dialect_label_def)

lemma format_auto:
  assumes "get_param tp ''sql'' (PStr '''') = sql" and "truthy sql"
    and "get_param tp ''dialect'' (PStr '''') = PStr ''''"
    and "parse lib sql PNone = Inr stmts"
    and "format_statements lib PNone (get_param tp ''identify'' (PBool False))
           (get_param tp ''normalize'' (PBool False)) [] stmts = Inr (f # fs)"
  shows "\<exists>t1 t2 d. FormatSqlTool_invoke lib tp =
            ([TextMessage t1, TextMessage t2, JsonMessage (PDict d)], None)
         \<and> map_of d ''formatted_sql'' = Some (PStr (str_join '';\<newline>\<newline>'' (f # fs)))
         \<and> map_of d ''dialect'' = Some (PStr ''auto-detected'')"
proof -
  from assms(5) have "stmts \<noteq> []" by auto
  with assms show ?thesis
    by (simp add: FormatSqlTool_invoke_def format_try_def try_except_def parse_dialect_of_def Let_def
          dialect_label_def)
qed

lemma transpile_auto:
  assumes "get_param tp ''sql'' (PStr '''') = sql" and "truthy sql"
    and "get_param tp ''source_dialect'' (PStr '''') = PStr ''''"
    and "truthy (get_param tp ''target_dialect'' (PStr ''''))"
    and "transpile lib sql PNone (get_param tp ''target_dialect'' (PStr ''''))
           (get_param tp ''pretty'' (PBool True)) = Inr (t # ts)"
  shows "\<exists>t1 t2 d. TranspileSqlTool_invoke lib tp =
            ([TextMessage t1, TextMessage t2, JsonMessage (PDict d)], None)
         \<and> map_of d ''statement_count'' = Some (PInt (int (length (t # ts))))
         \<and> map_of d ''source_dialect'' = Some (PStr ''auto-detected'')"
  using assms
  by (simp add: TranspileSqlTool_invoke_def transpile_try_def try_except_def
        parse_dialect_of_def dialect_label_def Let_def)

lemma optimize_auto:
  assumes "get_param tp ''sql'' (PStr '''') = sql" and "truthy sql"
    and "get_param tp ''dialect'' (PStr '''') = PStr ''''"
    and "parse_one lib sql PNone = Inr (Some parsed)"
    and "load_schema lib (get_param tp ''schema'' (PStr '''')) = Inr schema"
    and "expr_sql lib (fst (optimize_or_keep lib parsed schema PNone))
           [(''dialect'', PNone), (''pretty'', PBool True)] = Inr body"
  shows "\<exists>t1 t2 d. OptimizeSqlTool_invoke lib tp =
            ([TextMessage t1, TextMessage t2, JsonMessage (PDict d)], None)
         \<and> map_of d ''optimized_sql'' = Some (PStr body)
         \<and> map_of d ''dialect'' = Some (PStr ''auto-detected'')"
proof (cases "optimize_or_keep lib parsed schema PNone")
  case (Pair optimized onote)
  show ?thesis
  proof (cases onote)
    case None
    with Pair assms show ?thesis
      by (simp add: OptimizeSqlTool_invoke_def optimize_try_def optimize_parsed_def
            try_except_def parse_dialect_of_def dialect_label_def Let_def)
  next
    case (Some n)
    with Pair assms show ?thesis
      by (simp add: OptimizeSqlTool_invoke_def optimize_try_def optimize_parsed_def
            try_except_def parse_dialect_of_def dialect_label_def Let_def)
  qed
qed

lemma execute_auto:
  assumes "get_param tp ''sql'' (PStr '''') = sql" and "truthy sql"
    and "get_param tp ''dialect'' (PStr '''') = PStr ''''"
    and "truthy (get_param tp ''tables'' (PStr ''''))"
    and "json_loads lib (get_param tp ''tables'' (PStr '''')) = Inr (PDict tables)"
    and "check_tables tables = None"
    and "execute lib sql (PDict tables) PNone = Inr result"
  shows "\<exists>ms d. ExecuteSqlTool_invoke lib tp = (ms @ [JsonMessage (PDict d)], None)
         \<and> map_of d ''success'' = Some (PBool True)
         \<and> map_of d ''dialect'' = Some (PStr ''auto-detected'')"
proof (cases "convert_result result")
  case (Pair columns result_data)
  let ?d = "[(''success'', PBool True),
             (''row_count'', PInt (int (length result_data))),
             (''columns'', PList (map PStr columns)),
             (''data'', PList result_data),
             (''original_sql'', sql),
             (''dialect'', PStr ''auto-detected'')]"
  from Pair assms have "\<exists>ms. ExecuteSqlTool_invoke lib tp = (ms @ [JsonMessage (PDict ?d)], None)"
    by (simp add: ExecuteSqlTool_invoke_def execute_try_def execute_checked_def
          try_except_def parse_dialect_of_def dialect_label_def Let_def)
  then obtain ms where "ExecuteSqlTool_invoke lib tp = (ms @ [JsonMessage (PDict ?d)], None)"
    by blast
  moreover have "map_of ?d ''success'' = Some (PBool True)"
    "map_of ?d ''dialect'' = Some (PStr ''auto-detected'')" by simp_all
  ultimately show ?thesis by blast
qed

text \<open>
  Claim C9. An empty or absent dialect is never an error of its own: each tool passes
  \<^verbatim>\<open>None\<close> to the library, which stands for its default grammar, and reports the
  dialect as \<^verbatim>\<open>"auto-detected"\<close>. So whenever the library, asked with no dialect, parses
  (transpiles, executes) the statement, the tool answers with its success response. The
  selector is \<^verbatim>\<open>dialect\<close>, and \<^verbatim>\<open>source_dialect\<close> for TranspileSqlTool, whose
  \<^verbatim>\<open>target_dialect\<close> is a required parameter.
\<close>

theorem empty_dialect_auto_detects:
  assumes "get_param tp ''sql'' (PStr '''') = sql" and "truthy sql"
    and "tp ''dialect'' = None \<or> tp ''dialect'' = Some (PStr '''')"
  shows
   "(parse_one lib sql PNone = Inr (Some parsed)
       \<and> analyze_parsed lib parsed sql (PStr '''') = Inr (summary, response)
     \<longrightarrow> AnalyzeSqlTool_invoke lib tp = ([TextMessage summary, JsonMessage response], None)
         \<and> (\<exists>d. response = PDict d \<and> map_of d ''dialect'' = Some (PStr ''auto-detected'')))
    \<and> (parse lib sql PNone = Inr stmts \<and> valid_statements_of stmts \<noteq> []
       \<and> statement_infos lib 0 [] (valid_statements_of stmts) = Inr infos
     \<longrightarrow> (\<exists>t1 t2 d. ValidateSqlTool_invoke lib tp =
            ([TextMessage t1, TextMessage t2, JsonMessage (PDict d)], None)
         \<and> map_of d ''valid'' = Some (PBool True)
         \<and> map_of d ''dialect'' = Some (PStr ''auto-detected'')))
    \<and> (parse lib sql PNone = Inr stmts
       \<and> format_statements lib PNone (get_param tp ''identify'' (PBool False))
           (get_param tp ''normalize'' (PBool False)) [] stmts = Inr (f # fs)
     \<longrightarrow> (\<exists>t1 t2 d. FormatSqlTool_invoke lib tp =
            ([TextMessage t1, TextMessage t2, JsonMessage (PDict d)], None)
         \<and> map_of d ''formatted_sql'' = Some (PStr (str_join '';\<newline>\<newline>'' (f # fs)))
         \<and> map_of d ''dialect'' = Some (PStr ''auto-detected'')))
    \<and> ((tp ''source_dialect'' = None \<or> tp ''source_dialect'' = Some (PStr ''''))
       \<and> truthy (get_param tp ''target_dialect'' (PStr ''''))
       \<and> transpile lib sql PNone (get_param tp ''target_dialect'' (PStr ''''))
           (get_param tp ''pretty'' (PBool True)) = Inr (t # ts)
     \<longrightarrow> (\<exists>t1 t2 d. TranspileSqlTool_invoke lib tp =
            ([TextMessage t1, TextMessage t2, JsonMessage (PDict d)], None)
         \<and> map_of d ''statement_count'' = Some (PInt (int (length (t # ts))))
         \<and> map_of d ''source_dialect'' = Some (PStr ''auto-detected'')))
    \<and> (parse_one lib sql PNone = Inr (Some parsed)
       \<and> load_schema lib (get_param tp ''schema'' (PStr '''')) = Inr schema
       \<and> expr_sql lib (fst (optimize_or_keep lib parsed schema PNone))
           [(''dialect'', PNone), (''pretty'', PBool True)] = Inr body
     \<longrightarrow> (\<exists>t1 t2 d. OptimizeSqlTool_invoke lib tp =
            ([TextMessage t1, TextMessage t2, JsonMessage (PDict d)], None)
         \<and> map_of d ''optimized_sql'' = Some (PStr body)
         \<and> map_of d ''dialect'' = Some (PStr ''auto-detected'')))
    \<and> (truthy (get_param tp ''tables'' (PStr ''''))
       \<and> json_loads lib (get_param tp ''tables'' (PStr '''')) = Inr (PDict tables)
       \<and> check_tables tables = None
       \<and> execute lib sql (PDict tables) PNone = Inr result
     \<longrightarrow> (\<exists>ms d. ExecuteSqlTool_invoke lib tp = (ms @ [JsonMessage (PDict d)], None)
         \<and> map_of d ''success'' = Some (PBool True)
         \<and> map_of d ''dialect'' = Some (PStr ''auto-detected'')))"
proof -
  from assms(3) have d: "get_param tp ''dialect'' (PStr '''') = PStr ''''"
    by (rule empty_or_absent)
  show ?thesis
  proof (intro conjI impI)
    assume "parse_one lib sql PNone = Inr (Some parsed)
       \<and> analyze_parsed lib parsed sql (PStr '''') = Inr (summary, response)"
    then have p: "parse_one lib sql PNone = Inr (Some parsed)"
      and a: "analyze_parsed lib parsed sql (PStr '''') = Inr (summary, response)" by simp_all
    from analyze_auto[OF assms(1,2) d p a]
    show "AnalyzeSqlTool_invoke lib tp = ([TextMessage summary, JsonMessage response], None)"
      and "\<exists>d. response = PDict d \<and> map_of d ''dialect'' = Some (PStr ''auto-detected'')"
      by simp_all
  next
    assume "parse lib sql PNone = Inr stmts \<and> valid_statements_of stmts \<noteq> []
       \<and> statement_infos lib 0 [] (valid_statements_of stmts) = Inr infos"
    then have "parse lib sql PNone = Inr stmts" "valid_statements_of stmts \<noteq> []"
      "statement_infos lib 0 [] (valid_statements_of stmts) = Inr infos" by simp_all
    then show "\<exists>t1 t2 d. ValidateSqlTool_invoke lib tp =
            ([TextMessage t1, TextMessage t2, JsonMessage (PDict d)], None)
         \<and> map_of d ''valid'' = Some (PBool True)
         \<and> map_of d ''dialect'' = Some (PStr ''auto-detected'')"
      by (rule validate_auto[OF assms(1,2) d])
  next
    assume "parse lib sql PNone = Inr stmts
       \<and> format_statements lib PNone (get_param tp ''identify'' (PBool False))
           (get_param tp ''normalize'' (PBool False)) [] stmts = Inr (f # fs)"
    then have "parse lib sql PNone = Inr stmts"
      "format_statements lib PNone (get_param tp ''identify'' (PBool False))
           (get_param tp ''normalize'' (PBool False)) [] stmts = Inr (f # fs)" by simp_all
    then show "\<exists>t1 t2 d. FormatSqlTool_invoke lib tp =
            ([TextMessage t1, TextMessage t2, JsonMessage (PDict d)], None)
         \<and> map_of d ''formatted_sql'' = Some (PStr (str_join '';\<newline>\<newline>'' (f # fs)))
         \<and> map_of d ''dialect'' = Some (PStr ''auto-detected'')"
      by (rule format_auto[OF assms(1,2) d])
  next
    assume "(tp ''source_dialect'' = None \<or> tp ''source_dialect'' = Some (PStr ''''))
       \<and> truthy (get_param tp ''target_dialect'' (PStr ''''))
       \<and> transpile lib sql PNone (get_param tp ''target_dialect'' (PStr ''''))
           (get_param tp ''pretty'' (PBool True)) = Inr (t # ts)"
    then have s: "tp ''source_dialect'' = None \<or> tp ''source_dialect'' = Some (PStr '''')"
      and r: "truthy (get_param tp ''target_dialect'' (PStr ''''))"
        "transpile lib sql PNone (get_param tp ''target_dialect'' (PStr ''''))
           (get_param tp ''pretty'' (PBool True)) = Inr (t # ts)" by simp_all
    from s have "get_param tp ''source_dialect'' (PStr '''') = PStr ''''"
      by (rule empty_or_absent)
    from transpile_auto[OF assms(1,2) this r]
    show "\<exists>t1 t2 d. TranspileSqlTool_invoke lib tp =
            ([TextMessage t1, TextMessage t2, JsonMessage (PDict d)], None)
         \<and> map_of d ''statement_count'' = Some (PInt (int (length (t # ts))))
         \<and> map_of d ''source_dialect'' = Some (PStr ''auto-detected'')" .
  next
    assume "parse_one lib sql PNone = Inr (Some parsed)
       \<and> load_schema lib (get_param tp ''schema'' (PStr '''')) = Inr schema
       \<and> expr_sql lib (fst (optimize_or_keep lib parsed schema PNone))
           [(''dialect'', PNone), (''pretty'', PBool True)] = Inr body"
    then have "parse_one lib sql PNone = Inr (Some parsed)"
      "load_schema lib (get_param tp ''schema'' (PStr '''')) = Inr schema"
      "expr_sql lib (fst (optimize_or_keep lib parsed schema PNone))
           [(''dialect'', PNone), (''pretty'', PBool True)] = Inr body" by simp_all
    then show "\<exists>t1 t2 d. OptimizeSqlTool_invoke lib tp =
            ([TextMessage t1, TextMessage t2, JsonMessage (PDict d)], None)
         \<and> map_of d ''optimized_sql'' = Some (PStr body)
         \<and> map_of d ''dialect'' = Some (PStr ''auto-detected'')"
      by (rule optimize_auto[OF assms(1,2) d])
  next
    assume "truthy (get_param tp ''tables'' (PStr ''''))
       \<and> json_loads lib (get_param tp ''tables'' (PStr '''')) = Inr (PDict tables)
       \<and> check_tables tables = None
       \<and> execute lib sql (PDict tables) PNone = Inr result"
    then have "truthy (get_param tp ''tables'' (PStr ''''))"
      "json_loads lib (get_param tp ''tables'' (PStr '''')) = Inr (PDict tables)"
      "check_tables tables = None"
      "execute lib sql (PDict tables) PNone = Inr result" by simp_all
    then show "\<exists>ms d. ExecuteSqlTool_invoke lib tp = (ms @ [JsonMessage (PDict d)], None)
         \<and> map_of d ''success'' = Some (PBool True)
         \<and> map_of d ''dialect'' = Some (PStr ''auto-detected'')"
      by (rule execute_auto[OF assms(1,2) d])
  qed
qed

text \<open>
  The stand-in library asked with the dialect \<^verbatim>\<open>""\<close>: \<^verbatim>\<open>SELECT 1\<close> through five
  tools, and the aggregate query through ExecuteSqlTool.
\<close>

theorem empty_dialect_auto_detects_witness:
  "(\<exists>summary d. AnalyzeSqlTool_invoke canned_lib
        [''sql'' \<mapsto> PStr ''SELECT 1'', ''dialect'' \<mapsto> PStr '''',
         ''target_dialect'' \<mapsto> PStr ''postgres'']
        = ([TextMessage summary, JsonMessage (PDict d)], None)
      \<and> map_of d ''dialect'' = Some (PStr ''auto-detected''))
   \<and> (\<exists>t1 t2 d. ValidateSqlTool_invoke canned_lib
        [''sql'' \<mapsto> PStr ''SELECT 1'', ''dialect'' \<mapsto> PStr '''',
         ''target_dialect'' \<mapsto> PStr ''postgres'']
        = ([TextMessage t1, TextMessage t2, JsonMessage (PDict d)], None)
      \<and> map_of d ''valid'' = Some (PBool True)
      \<and> map_of d ''dialect'' = Some (PStr ''auto-detected''))
   \<and> (\<exists>t1 t2 d. FormatSqlTool_invoke canned_lib
        [''sql'' \<mapsto> PStr ''SELECT 1'', ''dialect'' \<mapsto> PStr '''',
         ''target_dialect'' \<mapsto> PStr ''postgres'']
        = ([TextMessage t1, TextMessage t2, JsonMessage (PDict d)], None)
      \<and> map_of d ''formatted_sql'' = Some (PStr (pretty_sql select_one))
      \<and> map_of d ''dialect'' = Some (PStr ''auto-detected''))
   \<and> (\<exists>t1 t2 d. TranspileSqlTool_invoke canned_lib
        [''sql'' \<mapsto> PStr ''SELECT 1'', ''dialect'' \<mapsto> PStr '''',
         ''target_dialect'' \<mapsto> PStr ''postgres'']
        = ([TextMessage t1, TextMessage t2, JsonMessage (PDict d)], None)
      \<and> map_of d ''statement_count'' = Some (PInt 1)
      \<and> map_of d ''source_dialect'' = Some (PStr ''auto-detected''))
   \<and> (\<exists>t1 t2 d. OptimizeSqlTool_invoke canned_lib
        [''sql'' \<mapsto> PStr ''SELECT 1'', ''dialect'' \<mapsto> PStr '''',
         ''target_dialect'' \<mapsto> PStr ''postgres'']
        = ([TextMessage t1, TextMessage t2, JsonMessage (PDict d)], None)
      \<and> map_of d ''optimized_sql'' = Some (PStr (pretty_sql select_one_optimized))
      \<and> map_of d ''dialect'' = Some (PStr ''auto-detected''))
   \<and> (\<exists>ms d. ExecuteSqlTool_invoke canned_lib
        [''sql'' \<mapsto> PStr ''SELECT SUM(v) AS total FROM t'', ''dialect'' \<mapsto> PStr '''',
         ''tables'' \<mapsto> PStr tables_json]
        = (ms @ [JsonMessage (PDict d)], None)
      \<and> map_of d ''success'' = Some (PBool True)
      \<and> map_of d ''dialect'' = Some (PStr ''auto-detected''))"
proof -
  let ?tp = "[''sql'' \<mapsto> PStr ''SELECT 1'', ''dialect'' \<mapsto> PStr '''',
              ''target_dialect'' \<mapsto> PStr ''postgres'']"
  let ?tq = "[''sql'' \<mapsto> PStr ''SELECT SUM(v) AS total FROM t'', ''dialect'' \<mapsto> PStr '''',
              ''tables'' \<mapsto> PStr tables_json]"
  let ?sql = "PStr ''SELECT 1''"
  let ?sum = "PStr ''SELECT SUM(v) AS total FROM t''"
  have g: "get_param ?tp ''sql'' (PStr '''') = ?sql" "truthy ?sql"
    "?tp ''dialect'' = None \<or> ?tp ''dialect'' = Some (PStr '''')"
    by (simp_all add: get_param_def)
  have h: "get_param ?tq ''sql'' (PStr '''') = ?sum" "truthy ?sum"
    "?tq ''dialect'' = None \<or> ?tq ''dialect'' = Some (PStr '''')"
    by (simp_all add: get_param_def)
  have gp: "get_param ?tp ''identify'' (PBool False) = PBool False"
    "get_param ?tp ''normalize'' (PBool False) = PBool False"
    "get_param ?tp ''target_dialect'' (PStr '''') = PStr ''postgres''"
    "get_param ?tp ''pretty'' (PBool True) = PBool True"
    "get_param ?tp ''schema'' (PStr '''') = PStr ''''"
    "get_param ?tq ''tables'' (PStr '''') = PStr tables_json"
    "?tp ''source_dialect'' = None"
    by (simp_all add: get_param_def)
  have cp: "canned_parse_one ?sql PNone = Inr (Some select_one)"
    by (simp add: canned_parse_one_def unclosed_string_def canned_statements_def)
  have p1: "parse_one canned_lib ?sql PNone = Inr (Some select_one)"
    by (simp add: canned_lib_def cp)
  have "\<exists>s r. analyze_parsed canned_lib select_one ?sql (PStr '''') = Inr (s, r)"
    by (simp add: analyze_parsed_def canned_lib_def select_one_def bind_exn_def)
  then obtain s r where a: "analyze_parsed canned_lib select_one ?sql (PStr '''') = Inr (s, r)"
    by blast
  have p: "parse canned_lib ?sql PNone = Inr [Some select_one]"
    by (simp add: canned_lib_def canned_parse_def cp)
  have v: "valid_statements_of [Some select_one] \<noteq> []" by simp
  have "\<exists>infos. statement_infos canned_lib 0 [] (valid_statements_of [Some select_one])
          = Inr infos"
    by (simp add: canned_lib_def bind_exn_def)
  then obtain infos where
    i: "statement_infos canned_lib 0 [] (valid_statements_of [Some select_one]) = Inr infos"
    by blast
  have f: "format_statements canned_lib PNone (get_param ?tp ''identify'' (PBool False))
             (get_param ?tp ''normalize'' (PBool False)) [] [Some select_one]
           = Inr (pretty_sql select_one # [])"
    by (simp add: canned_lib_def bind_exn_def)
  have t: "transpile canned_lib ?sql PNone (get_param ?tp ''target_dialect'' (PStr ''''))
             (get_param ?tp ''pretty'' (PBool True)) = Inr (pretty_sql select_one # [])"
    by (simp add: gp canned_lib_def canned_transpile_def canned_parse_def cp)
  have ls: "load_schema canned_lib (get_param ?tp ''schema'' (PStr '''')) = Inr PNone"
    by (simp add: gp load_schema_def)
  have o: "expr_sql canned_lib (fst (optimize_or_keep canned_lib select_one PNone PNone))
             [(''dialect'', PNone), (''pretty'', PBool True)]
           = Inr (pretty_sql select_one_optimized)"
    by (simp add: optimize_or_keep_def canned_lib_def canned_optimize_def)
  have j: "json_loads canned_lib (get_param ?tq ''tables'' (PStr '''')) =
             Inr (PDict [(''t'', PList [PDict [(''id'', PInt 1), (''v'', PInt 10)],
                                        PDict [(''id'', PInt 2), (''v'', PInt 20)]])])"
    by (simp add: gp canned_lib_def canned_json_loads_def tables_value_def)
  have c: "check_tables [(''t'', PList [PDict [(''id'', PInt 1), (''v'', PInt 10)],
                                         PDict [(''id'', PInt 2), (''v'', PInt 20)]])] = None"
    by simp
  have x: "execute canned_lib ?sum
             (PDict [(''t'', PList [PDict [(''id'', PInt 1), (''v'', PInt 10)],
                                    PDict [(''id'', PInt 2), (''v'', PInt 20)]])]) PNone
           = Inr (Some \<lparr>result_columns = Some [''total''],
                         result_rows = Some [PTuple [PInt 30]],
                         result_iter = Some [PTuple [PInt 30]]\<rparr>)"
    by (simp add: canned_lib_def canned_execute_def tables_value_def)
  have tt: "truthy (get_param ?tp ''target_dialect'' (PStr ''''))"
    "truthy (get_param ?tq ''tables'' (PStr ''''))"
    by (simp_all add: get_param_def tables_json_def)
  note th = empty_dialect_auto_detects[OF g, where lib = canned_lib]
  note tx = empty_dialect_auto_detects[OF h, where lib = canned_lib]
  from th[THEN conjunct1, rule_format, OF conjI[OF p1 a]]
  have A: "\<exists>summary d. AnalyzeSqlTool_invoke canned_lib ?tp
             = ([TextMessage summary, JsonMessage (PDict d)], None)
           \<and> map_of d ''dialect'' = Some (PStr ''auto-detected'')"
    by blast
  note V = th[THEN conjunct2, THEN conjunct1, rule_format, OF conjI[OF p conjI[OF v i]]]
  from th[THEN conjunct2, THEN conjunct2, THEN conjunct1, rule_format, OF conjI[OF p f]]
  have F: "\<exists>t1 t2 d. FormatSqlTool_invoke canned_lib ?tp
             = ([TextMessage t1, TextMessage t2, JsonMessage (PDict d)], None)
           \<and> map_of d ''formatted_sql'' = Some (PStr (pretty_sql select_one))
           \<and> map_of d ''dialect'' = Some (PStr ''auto-detected'')"
    by simp
  from th[THEN conjunct2, THEN conjunct2, THEN conjunct2, THEN conjunct1, rule_format,
          OF conjI[OF disjI1[OF gp(7)] conjI[OF tt(1) t]]]
  have T: "\<exists>t1 t2 d. TranspileSqlTool_invoke canned_lib ?tp
             = ([TextMessage t1, TextMessage t2, JsonMessage (PDict d)], None)
           \<and> map_of d ''statement_count'' = Some (PInt 1)
           \<and> map_of d ''source_dialect'' = Some (PStr ''auto-detected'')"
    by simp
  note O = th[THEN conjunct2, THEN conjunct2, THEN conjunct2, THEN conjunct2, THEN conjunct1,
              rule_format, OF conjI[OF p1 conjI[OF ls o]]]
  note X = tx[THEN conjunct2, THEN conjunct2, THEN conjunct2, THEN conjunct2, THEN conjunct2,
              rule_format, OF conjI[OF tt(2) conjI[OF j conjI[OF c x]]]]
  from A V F T O X show ?thesis by (intro conjI)
qed

section \<open>Execution results\<close>

text \<open>
  What ExecuteSqlTool does with the relation it gets back. For a \<^verbatim>\<open>Table\<close> whose
  column names are distinct and whose rows are tuples of that many values, the
  \<^verbatim>\<open>data\<close> of the response holds one dict per row, in order, pairing each column with
  the serialized value at its position. The relation itself is computed by sqlglot.
\<close>

lemma dict_set_new: "k \<notin> fst ` set d \<Longrightarrow> dict_set d k v = d @ [(k, v)]"
  by (induction d) auto

lemma fill_row_dict_zip:
  "distinct columns \<Longrightarrow> set columns \<inter> fst ` set row_dict = {}
     \<Longrightarrow> i + length columns \<le> length row
     \<Longrightarrow> fill_row_dict columns i row row_dict =
           row_dict @ zip columns (map serialize_value (take (length columns) (drop i row)))"
proof (induction columns arbitrary: i row_dict)
  case Nil
  then show ?case by simp
next
  case (Cons c cs)
  from Cons.prems have i: "i < length row" and c: "c \<notin> fst ` set row_dict"
    and d: "distinct cs" and n: "c \<notin> set cs"
    and l: "Suc i + length cs \<le> length row"
    and s: "set cs \<inter> fst ` set row_dict = {}"
    by auto
  let ?d = "row_dict @ [(c, serialize_value (row ! i))]"
  from n s have "set cs \<inter> fst ` set ?d = {}" by auto
  from Cons.IH[OF d this l]
  have "fill_row_dict cs (Suc i) row ?d =
          ?d @ zip cs (map serialize_value (take (length cs) (drop (Suc i) row)))" .
  moreover from i have "drop i row = row ! i # drop (Suc i) row"
    by (simp add: Cons_nth_drop_Suc)
  ultimately show ?case using i c by (simp add: dict_set_new)
qed

lemma convert_result_table:
  assumes "distinct columns" and "\<forall>row \<in> set rows. length row = length columns"
  shows "convert_result
           (Some \<lparr>result_columns = Some columns, result_rows = Some (map PTuple rows),
                   result_iter = it\<rparr>) =
         (columns, map (\<lambda>row. PDict (zip columns (map serialize_value row))) rows)"
proof -
  have "rows_entry columns (PTuple row) = PDict (zip columns (map serialize_value row))"
    if "row \<in> set rows" for row
  proof -
    from that assms(2) have "length row = length columns" by blast
    with assms(1) show ?thesis
      using fill_row_dict_zip[of columns "[]" 0 row] by simp
  qed
  then show ?thesis by (simp add: convert_result_def)
qed

lemma execute_relays_table:
  assumes "get_param tp ''sql'' (PStr '''') = sql" and "truthy sql"
    and "get_param tp ''dialect'' (PStr '''') = dialect"
    and "truthy (get_param tp ''tables'' (PStr ''''))"
    and "json_loads lib (get_param tp ''tables'' (PStr '''')) = Inr (PDict tables)"
    and "check_tables tables = None"
    and "execute lib sql (PDict tables) (parse_dialect_of dialect) =
           Inr (Some \<lparr>result_columns = Some columns, result_rows = Some (map PTuple rows),
                         result_iter = it\<rparr>)"
    and "distinct columns" and "\<forall>row \<in> set rows. length row = length columns"
  shows "\<exists>ms. ExecuteSqlTool_invoke lib tp =
           (ms @ [JsonMessage
                    (PDict [(''success'', PBool True),
                            (''row_count'', PInt (int (length rows))),
                            (''columns'', PList (map PStr columns)),
                            (''data'', PList (map (\<lambda>row. PDict (zip columns
                                                     (map serialize_value row))) rows)),
                            (''original_sql'', sql),
                            (''dialect'', dialect_label dialect)])], None)"
  using assms(1-7) convert_result_table[OF assms(8,9), of it]
  by (simp add: ExecuteSqlTool_invoke_def execute_try_def execute_checked_def try_except_def
        Let_def)

end
